theory Spec2Isabelle
  imports Complex_Main "HOL-Library.Sublist" "HOL-Library.AList"
begin

section \<open>Python and numpy primitives used by the two scripts\<close>

text \<open>
  Exceptions and process exits are values.  \<open>SystemExit\<close> is what \<^verbatim>\<open>sys.exit()\<close>
  raises; the other constructors are the Python exception classes the modelled paths
  can raise.  \<open>OSError\<close> stands for a failed file operation, \<open>URLError\<close> for a failed
  download, and \<open>ExternalError\<close> for any other exception raised inside an external
  library or tool call (FITS tables, catalogue query, optimiser).
\<close>

datatype py_error =
    SystemExit
  | UnboundLocalError
  | NameError
  | TypeError
  | ValueError
  | IndexError
  | KeyError
  | AttributeError
  | ZeroDivisionError
  | OSError
  | URLError
  | ExternalError

subsection \<open>Strings: \<^verbatim>\<open>str.find\<close> and \<^verbatim>\<open>str.split\<close>\<close>

text \<open>
  \<^verbatim>\<open>s.find(sub)\<close>: the lowest index at which \<open>sub\<close> occurs in \<open>s\<close>, or \<open>-1\<close>.
  \<open>find_from s sub i\<close> scans \<open>s\<close>, the suffix that starts at index \<open>i\<close> of the string.
\<close>

fun find_from :: "string \<Rightarrow> string \<Rightarrow> int \<Rightarrow> int" where
  "find_from [] sub i = (if sub = [] then i else -1)"
| "find_from (c # s) sub i =
     (if take (length sub) (c # s) = sub then i else find_from s sub (i + 1))"

definition find_py :: "string \<Rightarrow> string \<Rightarrow> int" where
  "find_py s sub = find_from s sub 0"

text \<open>
  \<^verbatim>\<open>s.split(sep)\<close> for a non-empty separator (Python raises ValueError on an empty
  one; the scripts only pass non-empty literals).  \<open>cur\<close> is the piece being collected.
\<close>

function split_from :: "string \<Rightarrow> string \<Rightarrow> string \<Rightarrow> string list" where
  "split_from sep cur s =
     (if s = [] then [cur]
      else if sep \<noteq> [] \<and> take (length sep) s = sep
           then cur # split_from sep [] (drop (length sep) s)
      else split_from sep (cur @ [hd s]) (tl s))"
  by pat_completeness auto
termination
  by (relation "measure (\<lambda>(sep, cur, s). length s)") auto

definition split_py :: "string \<Rightarrow> string \<Rightarrow> string list" where
  "split_py s sep = split_from sep [] s"

subsection \<open>numpy arrays as lists\<close>

text \<open>
  Floating-point numbers are modelled as reals: rounding, infinities and NaN are outside
  the model.  A one-dimensional array is a list.

  \<^verbatim>\<open>a[flag]\<close> with a boolean array \<open>flag\<close>: the entries of \<open>a\<close> at the positions where
  \<open>flag\<close> is true, in order.  numpy raises IndexError when the two lengths differ; the
  callers below test the lengths before they index.
\<close>

definition mask :: "bool list \<Rightarrow> 'a list \<Rightarrow> 'a list" where
  "mask flag a = map snd (filter fst (zip flag a))"

definition bool_index :: "'a list \<Rightarrow> bool list \<Rightarrow> py_error + 'a list" where
  "bool_index a flag = (if length flag = length a then Inr (mask flag a) else Inl IndexError)"

text \<open>\<^verbatim>\<open>sum(flag)\<close> on a boolean array: True counts 1, False counts 0.\<close>

definition sum_flag :: "bool list \<Rightarrow> nat" where
  "sum_flag flag = sum_list (map (\<lambda>b. if b then 1 else 0) flag)"

text \<open>\<^verbatim>\<open>np.polyval(p, x)\<close>: Horner's scheme, highest power first.\<close>

definition polyval :: "real list \<Rightarrow> real \<Rightarrow> real" where
  "polyval p x = foldl (\<lambda>acc c. acc * x + c) 0 p"

text \<open>
  \<^verbatim>\<open>np.median\<close>: the middle element of the sorted array, or the mean of the two middle
  elements when the length is even.  On an empty array numpy returns NaN; the model
  returns 0 there, and every use below maps over the same empty array, so that value is
  never looked at.
\<close>

definition median :: "real list \<Rightarrow> real" where
  "median a =
     (let s = sort a; n = length a
      in if n = 0 then 0
         else if odd n then s ! (n div 2)
         else (s ! (n div 2 - 1) + s ! (n div 2)) / 2)"

text \<open>
  Elementwise \<^verbatim>\<open>a - b\<close> of two arrays.  numpy raises ValueError when the shapes cannot
  be broadcast; broadcasting of a length-one array against a longer one is not
  modelled (the arrays of this program are cut from tables of equal length).
\<close>

definition arr_sub :: "real list \<Rightarrow> real list \<Rightarrow> py_error + real list" where
  "arr_sub a b = (if length a = length b then Inr (map2 (-) a b) else Inl ValueError)"

section \<open>The zero-point tool (getzp.py)\<close>

subsection \<open>Tables\<close>

text \<open>One row of the Source Extractor catalogue: the columns the program reads.\<close>

record se_row =
  ALPHA_J2000 :: real
  DELTA_J2000 :: real
  X_IMAGE :: real
  Y_IMAGE :: real
  FLAGS :: int
  CLASS_STAR :: real
  FWHM_IMAGE :: real
  MAG_AUTO :: real
  MAGERR_AUTO :: real
  MAG_BEST :: real
  MAGERR_BEST :: real
  MAG_PETRO :: real
  MAGERR_PETRO :: real
  MAG_APER :: "real list"
  MAGERR_APER :: "real list"

text \<open>
  A structured array: its dtype fixes how many apertures the columns \<^verbatim>\<open>MAG_APER\<close> and
  \<^verbatim>\<open>MAGERR_APER\<close> hold in every row.
\<close>

record se_table =
  n_aper :: nat
  rows :: "se_row list"

text \<open>One row of the Pan-STARRS catalogue.\<close>

record pan_row =
  RAJ2000 :: real
  DEJ2000 :: real
  Qual :: int
  gmag :: real
  rmag :: real
  e_rmag :: real
  imag :: real

text \<open>The entry of \<^verbatim>\<open>np.zeros(n, dtype=...)\<close> for a dtype with \<open>d\<close> apertures.\<close>

definition zero_row :: "nat \<Rightarrow> se_row" where
  "zero_row d =
     \<lparr>ALPHA_J2000 = 0, DELTA_J2000 = 0, X_IMAGE = 0, Y_IMAGE = 0, FLAGS = 0,
      CLASS_STAR = 0, FWHM_IMAGE = 0, MAG_AUTO = 0, MAGERR_AUTO = 0, MAG_BEST = 0,
      MAGERR_BEST = 0, MAG_PETRO = 0, MAGERR_PETRO = 0,
      MAG_APER = replicate d 0, MAGERR_APER = replicate d 0\<rparr>"

text \<open>
  \<^verbatim>\<open>table[col][:, k]\<close>: column \<open>k\<close> of a two-dimensional column, with Python's negative
  indices; IndexError outside \<open>-d \<le> k < d\<close>.
\<close>

definition aper_col :: "(se_row \<Rightarrow> real list) \<Rightarrow> se_table \<Rightarrow> int \<Rightarrow> py_error + real list" where
  "aper_col col tab k =
     (let d = int (n_aper tab); j = (if k < 0 then d + k else k)
      in if 0 \<le> j \<and> j < d then Inr (map (\<lambda>r. col r ! nat j) (rows tab))
         else Inl IndexError)"

subsection \<open>The object\<close>

text \<open>
  The attributes of a \<^verbatim>\<open>getzp\<close> object, \<^verbatim>\<open>self.name\<close> written \<open>self_name\<close>.  An
  attribute that is not assigned yet holds an arbitrary value in the model; no modelled
  path reads one before it is assigned, except \<^verbatim>\<open>keepsection\<close>, which is an option.
\<close>

record getzp_obj =
  self_image :: string
  self_instrument :: "string option"
  self_filter :: string
  self_nsigma :: real
  self_useri :: bool
  self_naper :: int
  self_mag :: int
  self_keepsection :: "real list option"
  self_secat :: se_table
  self_centerRA :: real
  self_centerDEC :: real
  self_radius :: real
  self_pan :: "pan_row list"
  self_matchflag :: "bool list"
  self_matchedarray1 :: se_table
  self_fitflag :: "bool list"
  self_goodarea_flag :: "bool list"
  self_R :: "real list"
  self_bestc :: "real list"
  self_x :: "real list"
  self_y :: "real list"
  self_yerr :: "real list"
  self_residual :: "real list"
  self_zpcovar :: real
  self_zperr :: real
  self_zp :: real

subsection \<open>\<^verbatim>\<open>fitzp\<close>: the fit loop\<close>

text \<open>The model that is fitted: slope one, the offset \<open>zp\<close> free.\<close>

definition zpfunc :: "real \<Rightarrow> real \<Rightarrow> real" where
  "zpfunc x zp = x + zp"

text \<open>
  \<^verbatim>\<open>scipy.optimize.curve_fit(f, x, y, sigma=yerr)\<close> for a model \<open>f\<close> with one parameter is
  a parameter of the development: a function of its arguments that returns the fitted
  parameter \<^verbatim>\<open>t[0][0]\<close> and its variance \<^verbatim>\<open>t[1][0][0]\<close>, or raises (\<open>None\<close>).
\<close>

type_synonym curve_fit_fn =
  "(real \<Rightarrow> real \<Rightarrow> real) \<Rightarrow> real list \<Rightarrow> real list \<Rightarrow> real list \<Rightarrow> (real \<times> real) option"

text \<open>
  The local variables of \<^verbatim>\<open>fitzp\<close> that live across iterations of the loop:
  \<^verbatim>\<open>delta\<close>, \<^verbatim>\<open>x\<close>, \<^verbatim>\<open>y\<close>, \<^verbatim>\<open>yerr\<close> and \<^verbatim>\<open>t\<close> (unbound, \<open>None\<close>, before the first fit).
\<close>

record fit_vars =
  v_delta :: real
  v_x :: "real list"
  v_y :: "real list"
  v_yerr :: "real list"
  v_t :: "(real \<times> real) option"

text \<open>
  The clipping flag of one iteration:
  \<^verbatim>\<open>MAD = 1.48*np.median(abs(residual - np.median(residual)))\<close>,
  \<^verbatim>\<open>flag = (abs(residual - np.median(residual)) < self.nsigma*MAD)\<close>.
\<close>

definition clip_flag :: "real \<Rightarrow> real list \<Rightarrow> bool list" where
  "clip_flag nsigma residual =
     (let MAD = 1.48 * median (map (\<lambda>r. \<bar>r - median residual\<bar>) residual)
      in map (\<lambda>r. \<bar>r - median residual\<bar> < nsigma * MAD) residual)"

text \<open>
  One pass through the body of \<^verbatim>\<open>while delta > 1.e-3\<close> (plotting and printing left
  out).  The result is the error raised together with the object as it stands then, or
  the object and the local variables at the end of the body.
\<close>

definition fitzp_body ::
  "curve_fit_fn \<Rightarrow> getzp_obj \<Rightarrow> fit_vars \<Rightarrow> (py_error \<times> getzp_obj) + (getzp_obj \<times> fit_vars)" where
  "fitzp_body curve_fit self v =
     (case curve_fit zpfunc (v_x v) (v_y v) (v_yerr v) of
        None \<Rightarrow> Inl (ExternalError, self)
      | Some t \<Rightarrow>
          (let c = [1, fst t];
               yfit = map (polyval c) (v_x v)
           in case arr_sub yfit (v_y v) of
                Inl e \<Rightarrow> Inl (e, self)
              | Inr residual \<Rightarrow>
                  if length (self_bestc self) < 2 then Inl (IndexError, self)
                  else
                    (let delta = \<bar>self_bestc self ! 1 - c ! 1\<bar>;
                         self1 = self\<lparr>self_bestc := c\<rparr>;
                         flag = clip_flag (self_nsigma self1) residual;
                         self2 = self1\<lparr>self_x := v_x v, self_y := v_y v,
                                       self_residual := residual\<rparr>
                     in if sum_flag flag < 2 then Inl (SystemExit, self2)
                        else
                          (case bool_index (v_yerr v) flag of
                             Inl e \<Rightarrow> Inl (e, self2)
                           | Inr yerr' \<Rightarrow>
                               Inr (self2,
                                    \<lparr>v_delta = delta, v_x = mask flag (v_x v),
                                     v_y = mask flag (v_y v), v_yerr = yerr',
                                     v_t = Some t\<rparr>)))))"

text \<open>
  An upper bound on the number of passes still to come: none when the loop test fails;
  one when the stored intercept already equals the fit of the current data (the next
  \<^verbatim>\<open>delta\<close> is then 0) or the fit raises; otherwise at most one per data point.
\<close>

definition passes_left :: "curve_fit_fn \<Rightarrow> getzp_obj \<Rightarrow> fit_vars \<Rightarrow> nat" where
  "passes_left curve_fit self v =
     (if v_delta v > 1 / 1000 then
        (case curve_fit zpfunc (v_x v) (v_y v) (v_yerr v) of
           None \<Rightarrow> 1
         | Some t \<Rightarrow> if self_bestc self ! 1 = fst t then 1 else max 1 (length (v_x v)))
      else 0)"

text \<open>The residual \<^verbatim>\<open>yfit - y\<close> of a pass whose fit returned the offset \<open>zp\<close>.\<close>

definition body_residual :: "real \<Rightarrow> fit_vars \<Rightarrow> real list" where
  "body_residual zp v = map2 (-) (map (polyval [1, zp]) (v_x v)) (v_y v)"

subsection \<open>Facts about one pass, used for the termination of the loop\<close>

lemma sum_flag_Cons: "sum_flag (b # bs) = (if b then 1 else 0) + sum_flag bs"
  by (simp add: sum_flag_def)

lemma sum_flag_Nil: "sum_flag [] = 0"
  by (simp add: sum_flag_def)

lemma sum_flag_le: "sum_flag flag \<le> length flag"
  by (induction flag) (auto simp: sum_flag_Cons sum_flag_Nil)

lemma length_mask: "length flag = length a \<Longrightarrow> length (mask flag a) = sum_flag flag"
proof (induction flag arbitrary: a)
  case Nil
  then show ?case by (simp add: mask_def sum_flag_Nil)
next
  case (Cons b bs)
  then obtain h t where a: "a = h # t" by (cases a) auto
  with Cons.prems have "length bs = length t" by simp
  from Cons.IH[OF this] show ?case
    by (simp add: a mask_def sum_flag_Cons)
qed

lemma mask_all: "length flag = length a \<Longrightarrow> sum_flag flag = length flag \<Longrightarrow> mask flag a = a"
proof (induction flag arbitrary: a)
  case Nil
  then show ?case by (simp add: mask_def)
next
  case (Cons b bs)
  then obtain h t where a: "a = h # t" by (cases a) auto
  with Cons.prems have len: "length bs = length t" by simp
  have le: "sum_flag bs \<le> length bs" by (rule sum_flag_le)
  from Cons.prems(2) le have b: "b" and all: "sum_flag bs = length bs"
    by (auto simp: sum_flag_Cons split: if_splits)
  from Cons.IH[OF len all] b show ?case
    by (simp add: a mask_def)
qed

lemma length_clip_flag: "length (clip_flag nsigma residual) = length residual"
  by (simp add: clip_flag_def Let_def)

lemma fitzp_body_Inr:
  assumes "fitzp_body curve_fit self v = Inr (self', v')"
  shows "\<exists>t flag.
           curve_fit zpfunc (v_x v) (v_y v) (v_yerr v) = Some t
         \<and> flag = clip_flag (self_nsigma self) (body_residual (fst t) v)
         \<and> length (v_x v) = length (v_y v) \<and> length (v_yerr v) = length (v_x v)
         \<and> length flag = length (v_x v)
         \<and> 2 \<le> sum_flag flag
         \<and> self' = self\<lparr>self_bestc := [1, fst t], self_x := v_x v, self_y := v_y v,
                          self_residual := body_residual (fst t) v\<rparr>
         \<and> v' = \<lparr>v_delta = \<bar>self_bestc self ! 1 - fst t\<bar>, v_x = mask flag (v_x v),
                  v_y = mask flag (v_y v), v_yerr = mask flag (v_yerr v), v_t = Some t\<rparr>"
proof (cases "curve_fit zpfunc (v_x v) (v_y v) (v_yerr v)")
  case None
  with assms show ?thesis by (simp add: fitzp_body_def)
next
  case (Some t)
  let ?res = "body_residual (fst t) v"
  let ?flag = "clip_flag (self_nsigma self) ?res"
  from assms Some have len: "length (v_x v) = length (v_y v)"
    by (simp add: fitzp_body_def Let_def arr_sub_def split: if_splits)
  with assms Some have rest:
    "\<not> length (self_bestc self) < 2" "\<not> sum_flag ?flag < 2"
    "length ?flag = length (v_yerr v)"
    "self' = self\<lparr>self_bestc := [1, fst t], self_x := v_x v, self_y := v_y v,
                          self_residual := ?res\<rparr>"
    "v' = \<lparr>v_delta = \<bar>self_bestc self ! 1 - fst t\<bar>, v_x = mask ?flag (v_x v),
                  v_y = mask ?flag (v_y v), v_yerr = mask ?flag (v_yerr v), v_t = Some t\<rparr>"
    by (simp_all add: fitzp_body_def Let_def arr_sub_def bool_index_def body_residual_def
             split: if_splits)
  have "length ?flag = length (v_x v)"
    using len by (simp add: length_clip_flag body_residual_def)
  with Some len rest show ?thesis by simp
qed

lemma passes_left_decreases:
  assumes "v_delta v > 1 / 1000" and "fitzp_body curve_fit self v = Inr (self', v')"
  shows "passes_left curve_fit self' v' < passes_left curve_fit self v"
proof -
  from fitzp_body_Inr[OF assms(2)] obtain t flag where
    cf: "curve_fit zpfunc (v_x v) (v_y v) (v_yerr v) = Some t"
    and ly: "length (v_x v) = length (v_y v)" and le: "length (v_yerr v) = length (v_x v)"
    and lf: "length flag = length (v_x v)" and two: "2 \<le> sum_flag flag"
    and s': "self' = self\<lparr>self_bestc := [1, fst t], self_x := v_x v, self_y := v_y v,
                          self_residual := body_residual (fst t) v\<rparr>"
    and v': "v' = \<lparr>v_delta = \<bar>self_bestc self ! 1 - fst t\<bar>, v_x = mask flag (v_x v),
                  v_y = mask flag (v_y v), v_yerr = mask flag (v_yerr v), v_t = Some t\<rparr>"
    by blast
  have bc: "self_bestc self' = [1, fst t]" using s' by simp
  have d: "v_delta v' = \<bar>self_bestc self ! 1 - fst t\<bar>" using v' by simp
  have x': "v_x v' = mask flag (v_x v)" and y': "v_y v' = mask flag (v_y v)"
    and e': "v_yerr v' = mask flag (v_yerr v)" using v' by simp_all
  have n2: "2 \<le> length (v_x v)" using two sum_flag_le[of flag] lf by simp
  show ?thesis
  proof (cases "self_bestc self ! 1 = fst t")
    case True
    then have "v_delta v' = 0" using d by simp
    then show ?thesis using assms(1) cf True by (simp add: passes_left_def)
  next
    case False
    then have now: "passes_left curve_fit self v = length (v_x v)"
      using assms(1) cf n2 by (simp add: passes_left_def)
    show ?thesis
    proof (cases "sum_flag flag = length flag")
      case True
      then have "v_x v' = v_x v" "v_y v' = v_y v" "v_yerr v' = v_yerr v"
        using x' y' e' lf ly le by (simp_all add: mask_all)
      then have "passes_left curve_fit self' v' \<le> 1"
        using cf bc by (simp add: passes_left_def)
      then show ?thesis using now n2 by simp
    next
      case False
      then have "length (v_x v') < length (v_x v)"
        using x' lf length_mask[of flag "v_x v"] sum_flag_le[of flag] by simp
      moreover have "passes_left curve_fit self' v' \<le> max 1 (length (v_x v'))"
        by (simp add: passes_left_def split: option.splits)
      ultimately show ?thesis using now n2 by simp
    qed
  qed
qed

subsection \<open>The loop and the rest of \<^verbatim>\<open>fitzp\<close>\<close>

text \<open>
  \<^verbatim>\<open>while delta > 1.e-3: ...\<close>.  The first component of the result counts the passes
  through the body that were started; the second is the outcome: the error raised and
  the object at that moment, or the object and the locals when the loop test fails.
\<close>

function fitzp_loop ::
  "curve_fit_fn \<Rightarrow> getzp_obj \<Rightarrow> fit_vars
     \<Rightarrow> nat \<times> ((py_error \<times> getzp_obj) + (getzp_obj \<times> fit_vars))" where
  "fitzp_loop curve_fit self v =
     (if v_delta v > 1 / 1000 then
        (case fitzp_body curve_fit self v of
           Inl e \<Rightarrow> (1, Inl e)
         | Inr (self', v') \<Rightarrow>
             (let (n, r) = fitzp_loop curve_fit self' v' in (Suc n, r)))
      else (0, Inr (self, v)))"
  by pat_completeness auto
termination
  by (relation "measure (\<lambda>(curve_fit, self, v). passes_left curve_fit self v)")
     (auto simp: passes_left_decreases)

declare fitzp_loop.simps [simp del]

text \<open>
  \<open>raising m self f\<close>: evaluate \<open>m\<close>; when it raises, the error leaves with the object
  \<open>self\<close> as it stands; otherwise go on with \<open>f\<close>.
\<close>

definition raising ::
  "py_error + 'a \<Rightarrow> 's \<Rightarrow> ('a \<Rightarrow> (py_error \<times> 's) + 'b) \<Rightarrow> (py_error \<times> 's) + 'b" where
  "raising m self f = (case m of Inl e \<Rightarrow> Inl (e, self) | Inr a \<Rightarrow> f a)"

text \<open>One column of a table, cut by a flag: \<^verbatim>\<open>tab[col][:,k][flag]\<close>.\<close>

definition aper_sel ::
  "(se_row \<Rightarrow> real list) \<Rightarrow> se_table \<Rightarrow> int \<Rightarrow> bool list \<Rightarrow> py_error + real list" where
  "aper_sel col tab k flag =
     (case aper_col col tab k of Inl e \<Rightarrow> Inl e | Inr a \<Rightarrow> bool_index a flag)"

text \<open>
  The \<^verbatim>\<open>if self.mag == 0 ... elif ... elif ...\<close> chain that binds \<^verbatim>\<open>y\<close> and \<^verbatim>\<open>yerr\<close>.
  For any other \<^verbatim>\<open>mag\<close> both stay unbound and the first statement of the loop, which
  reads \<^verbatim>\<open>y\<close>, raises UnboundLocalError.
\<close>

definition select_mag :: "getzp_obj \<Rightarrow> bool list \<Rightarrow> py_error + (real list \<times> real list)" where
  "select_mag self flag =
     (let tab = self_matchedarray1 self in
      if self_mag self = 0 then
        (case aper_sel MAG_APER tab (self_naper self) flag of
           Inl e \<Rightarrow> Inl e
         | Inr y \<Rightarrow>
             (case aper_sel MAGERR_APER tab (self_naper self) flag of
                Inl e \<Rightarrow> Inl e
              | Inr yerr \<Rightarrow> Inr (y, yerr)))
      else if self_mag self = 1 then
        (case bool_index (map MAG_BEST (rows tab)) flag of
           Inl e \<Rightarrow> Inl e
         | Inr y \<Rightarrow>
             (case bool_index (map MAGERR_BEST (rows tab)) flag of
                Inl e \<Rightarrow> Inl e
              | Inr yerr \<Rightarrow> Inr (y, yerr)))
      else if self_mag self = 2 then
        (case bool_index (map MAG_PETRO (rows tab)) flag of
           Inl e \<Rightarrow> Inl e
         | Inr y \<Rightarrow>
             (case bool_index (map MAGERR_PETRO (rows tab)) flag of
                Inl e \<Rightarrow> Inl e
              | Inr yerr \<Rightarrow> Inr (y, yerr)))
      else Inl UnboundLocalError)"

text \<open>
  \<^verbatim>\<open>np.polyfit(x, y, 1)\<close> is the second parameter: its value only feeds plots and
  variables that are overwritten, but it raises (\<open>None\<close>) on some inputs, such as empty
  arrays.
\<close>

type_synonym polyfit_fn = "real list \<Rightarrow> real list \<Rightarrow> nat \<Rightarrow> real list option"

text \<open>
  \<^verbatim>\<open>fitzp(plotall=False)\<close>, as \<^verbatim>\<open>getzp\<close> calls it, in three parts: the statements before
  the loop, the loop, the statements after it.  Calls of matplotlib are left out; the
  array expressions that prepare the plots stay, since they can raise.

  Before the loop: the first-guess \<^verbatim>\<open>polyfit\<close>, \<^verbatim>\<open>self.bestc = np.array([0,0],'f')\<close>,
  \<^verbatim>\<open>delta = 100.\<close>, and the data \<^verbatim>\<open>x\<close>, \<^verbatim>\<open>y\<close>, \<^verbatim>\<open>yerr\<close> cut by \<^verbatim>\<open>self.fitflag\<close>.
\<close>

definition fitzp_start ::
  "polyfit_fn \<Rightarrow> getzp_obj \<Rightarrow> (py_error \<times> getzp_obj) + (getzp_obj \<times> fit_vars)" where
  "fitzp_start polyfit self0 =
     (let flag = self_fitflag self0;
          tab = self_matchedarray1 self0 in
      raising (bool_index (map rmag (self_pan self0)) flag) self0 (\<lambda>px.
      raising (bool_index (map MAG_AUTO (rows tab)) flag) self0 (\<lambda>py.
      raising (case polyfit px py 1 of None \<Rightarrow> Inl ExternalError | Some c \<Rightarrow> Inr c) self0 (\<lambda>c.
      let self1 = self0\<lparr>self_bestc := [0, 0]\<rparr> in
      raising (bool_index (self_R self1) flag) self1 (\<lambda>x.
      raising (select_mag self1 flag) self1 (\<lambda>(y, yerr).
      Inr (self1, \<lparr>v_delta = 100, v_x = x, v_y = y, v_yerr = yerr, v_t = None\<rparr>)))))))"

text \<open>
  After the loop: the data for the three residual plots, then
  \<^verbatim>\<open>self.x\<close>, \<^verbatim>\<open>self.y\<close>, \<^verbatim>\<open>self.yerr\<close>, \<^verbatim>\<open>self.zpcovar = t[1]\<close>,
  \<^verbatim>\<open>self.zperr = np.sqrt(self.zpcovar[0][0])\<close> and \<^verbatim>\<open>self.zp = self.bestc[1]\<close>.
\<close>

definition fitzp_finish ::
  "getzp_obj \<Rightarrow> fit_vars \<Rightarrow> (py_error \<times> getzp_obj) + getzp_obj" where
  "fitzp_finish self2 v =
     (let tab = self_matchedarray1 self2 in
      raising (aper_sel MAG_APER tab (self_naper self2) (self_fitflag self2)) self2 (\<lambda>yplot.
      raising (bool_index (self_R self2) (self_fitflag self2)) self2 (\<lambda>Rfit.
      raising (arr_sub (map (polyval (self_bestc self2)) Rfit) yplot) self2 (\<lambda>residual_all.
      raising (aper_col MAG_APER tab (self_naper self2)) self2 (\<lambda>yplot2.
      raising (arr_sub (map (polyval (self_bestc self2)) (self_R self2)) yplot2) self2
        (\<lambda>residual_all2.
      raising (bool_index (map X_IMAGE (rows tab)) (self_fitflag self2)) self2 (\<lambda>xs.
      raising (bool_index (map Y_IMAGE (rows tab)) (self_fitflag self2)) self2 (\<lambda>ys.
      let self3 = self2\<lparr>self_x := v_x v, self_y := v_y v, self_yerr := v_yerr v\<rparr> in
      raising (case v_t v of None \<Rightarrow> Inl UnboundLocalError | Some t \<Rightarrow> Inr t) self3 (\<lambda>t.
      raising (if length (self_bestc self3) < 2 then Inl IndexError
               else Inr (self_bestc self3 ! 1)) self3 (\<lambda>b.
      Inr (self3\<lparr>self_zpcovar := snd t, self_zperr := sqrt (snd t),
                 self_zp := b\<rparr>)))))))))))"

definition fitzp ::
  "curve_fit_fn \<Rightarrow> polyfit_fn \<Rightarrow> getzp_obj \<Rightarrow> (py_error \<times> getzp_obj) + getzp_obj" where
  "fitzp curve_fit polyfit self =
     (case fitzp_start polyfit self of
        Inl e \<Rightarrow> Inl e
      | Inr (self1, v0) \<Rightarrow>
          (case snd (fitzp_loop curve_fit self1 v0) of
             Inl e \<Rightarrow> Inl e
           | Inr (self2, v) \<Rightarrow> fitzp_finish self2 v))"

text \<open>
  The states at the top of the loop that a run of the loop from a given state comes
  to: the passes of the loop, one after the other.
\<close>

inductive loop_reaches ::
  "curve_fit_fn \<Rightarrow> getzp_obj \<times> fit_vars \<Rightarrow> getzp_obj \<times> fit_vars \<Rightarrow> bool"
  for curve_fit :: curve_fit_fn and s0 :: "getzp_obj \<times> fit_vars" where
  at_start: "loop_reaches curve_fit s0 s0"
| next_pass:
    "loop_reaches curve_fit s0 (self, v) \<Longrightarrow> v_delta v > 1 / 1000
     \<Longrightarrow> fitzp_body curve_fit self v = Inr (self', v')
     \<Longrightarrow> loop_reaches curve_fit s0 (self', v')"

subsection \<open>FITS files\<close>

text \<open>
  A header is the ordered list of its cards, keyword and value.  A file is one HDU:
  \<^verbatim>\<open>fits.getdata(name, header=True)\<close> returns the data and the header of one HDU, and
  \<^verbatim>\<open>fits.writeto(name, data, header, overwrite=True)\<close> writes a file with that one HDU.
  The file system is a map from names to files.
\<close>

datatype hval = HNum real | HStr string

record fits_file =
  fits_data :: "real list list"
  fits_header :: "(string \<times> hval) list"

type_synonym files = "string \<rightharpoonup> fits_file"

text \<open>
  \<^verbatim>\<open>header.set(key, value)\<close>: the value of the first card with this keyword is replaced;
  a keyword that the header does not have is appended.
\<close>

definition header_set :: "(string \<times> hval) list \<Rightarrow> string \<Rightarrow> hval \<Rightarrow> (string \<times> hval) list" where
  "header_set header key val = AList.update key val header"

text \<open>
  \<^verbatim>\<open>float('{:.3f}'.format(v))\<close>: \<open>v\<close> rounded to three decimals, a tie to the even
  neighbour.
\<close>

definition round_half_even :: "real \<Rightarrow> int" where
  "round_half_even r =
     (let f = \<lfloor>r\<rfloor>; d = r - of_int f
      in if d < 1 / 2 then f else if d > 1 / 2 then f + 1
         else if even f then f else f + 1)"

definition fmt3 :: "real \<Rightarrow> real" where
  "fmt3 v = of_int (round_half_even (v * 1000)) / 1000"

subsection \<open>\<^verbatim>\<open>runse\<close> and \<^verbatim>\<open>get_panstarrs\<close>\<close>

text \<open>
  The world outside the program, for one run: Source Extractor (run on an image with
  a saturation level and, after the first pass, a seeing FWHM; the result is the
  catalogue read back, or \<open>None\<close> when reading it raises), the Pan-STARRS query at
  VizieR (\<open>None\<close> when it raises), the angular separation of two sky positions in
  degrees as astropy computes it, the two fitting routines, and the command-line
  argument \<^verbatim>\<open>args.fwhm\<close>.
\<close>

record zp_env =
  env_sextractor :: "string \<Rightarrow> real \<Rightarrow> real option \<Rightarrow> se_table option"
  env_panstarrs_query :: "real \<Rightarrow> real \<Rightarrow> real \<Rightarrow> pan_row list option"
  env_separation :: "real \<times> real \<Rightarrow> real \<times> real \<Rightarrow> real"
  env_curve_fit :: curve_fit_fn
  env_polyfit :: polyfit_fn
  env_args_fwhm :: "real option"

definition pixelscale :: real where
  "pixelscale = 0.43"

text \<open>\<^verbatim>\<open>min(a)\<close> and \<^verbatim>\<open>max(a)\<close> of a Python sequence: ValueError when it is empty.\<close>

definition py_min :: "real list \<Rightarrow> py_error + real" where
  "py_min a = (if a = [] then Inl ValueError else Inr (Min (set a)))"

definition py_max :: "real list \<Rightarrow> py_error + real" where
  "py_max a = (if a = [] then Inl ValueError else Inr (Max (set a)))"

text \<open>
  \<^verbatim>\<open>runse\<close>.  The configuration file \<^verbatim>\<open>defaultcat\<close> is bound only for the instruments
  \<^verbatim>\<open>h\<close>, \<^verbatim>\<open>i\<close> and \<^verbatim>\<open>m\<close>; the command line that reads it is built after the exposure
  time has been read from the header.
\<close>

definition runse :: "zp_env \<Rightarrow> files \<Rightarrow> getzp_obj \<Rightarrow> (py_error \<times> getzp_obj) + getzp_obj" where
  "runse env fs self0 =
     (let bound = (self_instrument self0 = Some ''h'' \<or> self_instrument self0 = Some ''i''
                   \<or> self_instrument self0 = Some ''m'');
          self1 = (if self_instrument self0 = Some ''i''
                   then self0\<lparr>self_keepsection := Some [1000, 5000, 0, 4000]\<rparr> else self0) in
      raising (case fs (self_image self1) of
                 None \<Rightarrow> Inl ExternalError
               | Some f \<Rightarrow>
                   (case map_of (fits_header f) ''EXPTIME'' of
                      None \<Rightarrow> Inl KeyError
                    | Some (HStr s) \<Rightarrow> Inl ValueError
                    | Some (HNum expt) \<Rightarrow>
                        if expt = 0 then Inl ZeroDivisionError else Inr (4000000 / expt)))
        self1 (\<lambda>ADUlimit.
      raising (if bound then Inr () else Inl UnboundLocalError) self1 (\<lambda>_.
      raising
        (case env_args_fwhm env of
           None \<Rightarrow>
             (case env_sextractor env (self_image self1) ADUlimit None of
                None \<Rightarrow> Inl ExternalError
              | Some secat0 \<Rightarrow>
                  Inr (self1\<lparr>self_secat := secat0\<rparr>,
                       median (map FWHM_IMAGE (rows secat0)) * pixelscale))
         | Some fwhm \<Rightarrow> Inr (self1, fwhm))
        self1 (\<lambda>(self2, fwhm).
      raising (case env_sextractor env (self_image self2) ADUlimit (Some fwhm) of
                 None \<Rightarrow> Inl ExternalError | Some secat \<Rightarrow> Inr secat) self2 (\<lambda>secat.
      let self3 = self2\<lparr>self_secat := secat\<rparr> in
      raising (py_min (map ALPHA_J2000 (rows secat))) self3 (\<lambda>minRA.
      raising (py_max (map ALPHA_J2000 (rows secat))) self3 (\<lambda>maxRA.
      raising (py_min (map DELTA_J2000 (rows secat))) self3 (\<lambda>minDEC.
      raising (py_max (map DELTA_J2000 (rows secat))) self3 (\<lambda>maxDEC.
      Inr (self3\<lparr>self_centerRA := 0.5 * (minRA + maxRA),
                 self_centerDEC := 0.5 * (minDEC + maxDEC),
                 self_radius := max (maxRA - minRA) (maxDEC - minDEC)\<rparr>))))))))))"

definition get_panstarrs :: "zp_env \<Rightarrow> getzp_obj \<Rightarrow> (py_error \<times> getzp_obj) + getzp_obj" where
  "get_panstarrs env self =
     (case env_panstarrs_query env (self_centerRA self) (self_centerDEC self) (self_radius self) of
        None \<Rightarrow> Inl (ExternalError, self)
      | Some tab \<Rightarrow> Inr (self\<lparr>self_pan := tab\<rparr>))"

subsection \<open>\<^verbatim>\<open>match_coords\<close>\<close>

text \<open>
  The nearest catalogue position to \<open>p\<close>: its index and its separation.  Among equally
  near positions the model takes the first.
\<close>

definition nearest :: "(real \<times> real \<Rightarrow> real \<times> real \<Rightarrow> real) \<Rightarrow> real \<times> real \<Rightarrow> (real \<times> real) list
                         \<Rightarrow> nat \<times> real" where
  "nearest sep p cat =
     foldl (\<lambda>(bi, bd) (i, c). if sep p c < bd then (i, sep p c) else (bi, bd))
       (0, sep p (hd cat)) (zip [1..<length cat] (tl cat))"

text \<open>
  \<^verbatim>\<open>coords.match_to_catalog_sky(cat)\<close>: for every position of \<open>coords\<close> the index of the
  nearest position of \<open>cat\<close> and the separation (\<^verbatim>\<open>index\<close>, \<^verbatim>\<open>dist2d\<close>), both of the length
  of \<open>coords\<close>.  astropy raises ValueError on an empty catalogue.
\<close>

definition match_to_catalog_sky ::
  "(real \<times> real \<Rightarrow> real \<times> real \<Rightarrow> real) \<Rightarrow> (real \<times> real) list \<Rightarrow> (real \<times> real) list
     \<Rightarrow> py_error + (nat list \<times> real list)" where
  "match_to_catalog_sky sep coords cat =
     (if cat = [] then Inl ValueError
      else Inr (map (\<lambda>p. fst (nearest sep p cat)) coords,
                map (\<lambda>p. snd (nearest sep p cat)) coords))"

text \<open>\<^verbatim>\<open>a[idx]\<close> with an array of indices: IndexError when one is out of range.\<close>

definition take_idx :: "'a list \<Rightarrow> nat list \<Rightarrow> py_error + 'a list" where
  "take_idx a idx =
     (if list_all (\<lambda>i. i < length a) idx then Inr (map (\<lambda>i. a ! i) idx) else Inl IndexError)"

text \<open>
  \<^verbatim>\<open>a[flag] = vals\<close>: the entries of \<open>a\<close> where \<open>flag\<close> is true are replaced by the values,
  in order; the other entries stay.  \<open>put_mask\<close> is the walk along the array;
  \<open>mask_assign\<close> adds numpy's checks (IndexError when the flag has another length,
  ValueError when the number of values is not the number of true flags; the broadcast
  of a single value is not modelled).
\<close>

fun put_mask :: "'a list \<Rightarrow> bool list \<Rightarrow> 'a list \<Rightarrow> 'a list" where
  "put_mask (a # as) (True # fs) (v # vs) = v # put_mask as fs vs"
| "put_mask (a # as) (False # fs) vs = a # put_mask as fs vs"
| "put_mask as fs vs = as"

definition mask_assign :: "'a list \<Rightarrow> bool list \<Rightarrow> 'a list \<Rightarrow> py_error + 'a list" where
  "mask_assign a flag vals =
     (if length flag \<noteq> length a then Inl IndexError
      else if length vals \<noteq> sum_flag flag then Inl ValueError
      else Inr (put_mask a flag vals))"

text \<open>Elementwise \<^verbatim>\<open>a & b\<close> of two boolean arrays of one length.\<close>

definition flag_and :: "bool list \<Rightarrow> bool list \<Rightarrow> bool list" where
  "flag_and a b = map2 (\<and>) a b"

text \<open>
  \<^verbatim>\<open>match_coords\<close>: matches within 5 arcsec, the fit flag, the good area for the
  instrument \<^verbatim>\<open>i\<close>, and the reference magnitude \<^verbatim>\<open>self.R\<close>.
\<close>

definition match_coords :: "zp_env \<Rightarrow> getzp_obj \<Rightarrow> (py_error \<times> getzp_obj) + getzp_obj" where
  "match_coords env self0 =
     (let pan = self_pan self0;
          secat = self_secat self0;
          pancoords = map (\<lambda>r. (RAJ2000 r, DEJ2000 r)) pan;
          secoords = map (\<lambda>r. (ALPHA_J2000 r, DELTA_J2000 r)) (rows secat) in
      raising (match_to_catalog_sky (env_separation env) pancoords secoords) self0
        (\<lambda>(index, dist2d).
      let self1 = self0\<lparr>self_matchflag := map (\<lambda>d. d < 5 / 3600) dist2d\<rparr>;
          self2 = self1\<lparr>self_matchedarray1 :=
                    \<lparr>n_aper = n_aper secat,
                     rows = replicate (length pancoords) (zero_row (n_aper secat))\<rparr>\<rparr> in
      raising (bool_index index (self_matchflag self2)) self2 (\<lambda>matched_index.
      raising (take_idx (rows secat) matched_index) self2 (\<lambda>vals.
      raising (mask_assign (rows (self_matchedarray1 self2)) (self_matchflag self2) vals) self2
        (\<lambda>filled.
      let self3 = self2\<lparr>self_matchedarray1 := (self_matchedarray1 self2)\<lparr>rows := filled\<rparr>\<rparr>;
          m = rows (self_matchedarray1 self3);
          self4 = self3\<lparr>self_fitflag :=
                    flag_and (flag_and (flag_and (flag_and (self_matchflag self3)
                      (map (\<lambda>r. rmag r > 9) pan))
                      (map (\<lambda>r. FLAGS r < 5) m))
                      (map (\<lambda>r. Qual r < 64) pan))
                      (map (\<lambda>r. CLASS_STAR r > 0.95) m)\<rparr> in
      raising
        (if self_instrument self4 = Some ''i'' then
           (case self_keepsection self4 of
              None \<Rightarrow> Inl AttributeError
            | Some ks \<Rightarrow>
                if length ks < 4 then Inl IndexError
                else
                  (let good = flag_and (flag_and (flag_and
                                (map (\<lambda>r. X_IMAGE r > ks ! 0) m)
                                (map (\<lambda>r. X_IMAGE r < ks ! 1) m))
                                (map (\<lambda>r. Y_IMAGE r > ks ! 2) m))
                                (map (\<lambda>r. Y_IMAGE r < ks ! 3) m)
                   in Inr (self4\<lparr>self_goodarea_flag := good,
                                  self_fitflag := flag_and (self_fitflag self4) good\<rparr>)))
         else Inr self4)
        self4 (\<lambda>self5.
      if self_filter self5 = ''R'' then
        (if self_useri self5
         then Inr (self5\<lparr>self_R :=
                     map (\<lambda>r. rmag r + (- 0.166) * (rmag r - imag r) - 0.275) pan\<rparr>)
         else Inr (self5\<lparr>self_R :=
                     map (\<lambda>r. rmag r + (- 0.142) * (gmag r - rmag r) - 0.142) pan\<rparr>))
      else Inr (self5\<lparr>self_R := map rmag pan\<rparr>)))))))"

subsection \<open>\<^verbatim>\<open>update_header\<close> and the pipeline \<^verbatim>\<open>getzp\<close>\<close>

text \<open>
  \<^verbatim>\<open>update_header\<close> reads the image, sets the cards in the header it has read and
  writes data and header back under the same name.
\<close>

definition update_header :: "files \<Rightarrow> getzp_obj \<Rightarrow> (py_error \<times> files) + files" where
  "update_header fs self =
     (case fs (self_image self) of
        None \<Rightarrow> Inl (ExternalError, fs)
      | Some f \<Rightarrow>
          (let im = fits_data f; header = fits_header f in
           if length (self_bestc self) < 2 then Inl (IndexError, fs)
           else
             (let header1 =
                    (if self_filter self = ''R''
                     then header_set
                            (header_set header ''PHOTZP''
                               (HNum (fmt3 (- 1 * (self_bestc self ! 1) + 0.21))))
                            ''LAMB(um)'' (HNum 0.6442)
                     else header_set header ''PHOTZP''
                            (HNum (fmt3 (- 1 * (self_bestc self ! 1)))));
                  header2 = header_set header1 ''PHOTSYS'' (HStr ''AB'');
                  header3 = header_set header2 ''FLUXZPJY'' (HNum 3631)
              in Inr (fs(self_image self \<mapsto> \<lparr>fits_data = im, fits_header = header3\<rparr>)))))"

text \<open>
  The lines \<^verbatim>\<open>getzp\<close> prints, one before each stage.  (The last one is spelled as in
  the source.)
\<close>

definition status_lines :: "string list" where
  "status_lines =
     [''STATUS: running se'', ''STATUS: getting panstarrs'',
      ''STATUS: matching se cat to panstarrs'', ''STATUS: fitting zeropoint'',
      ''STATUS: udating header'']"

text \<open>
  \<^verbatim>\<open>getzp.getzp\<close>.  The result is the list of status lines printed, the file system
  at the end, and the outcome: the error that ended the run and the object at that
  moment, or the object after the last stage.
\<close>

definition getzp ::
  "zp_env \<Rightarrow> files \<Rightarrow> getzp_obj
     \<Rightarrow> string list \<times> files \<times> ((py_error \<times> getzp_obj) + getzp_obj)" where
  "getzp env fs self0 =
     (case runse env fs self0 of
        Inl e \<Rightarrow> (take 1 status_lines, fs, Inl e)
      | Inr self1 \<Rightarrow>
     (case get_panstarrs env self1 of
        Inl e \<Rightarrow> (take 2 status_lines, fs, Inl e)
      | Inr self2 \<Rightarrow>
     (case match_coords env self2 of
        Inl e \<Rightarrow> (take 3 status_lines, fs, Inl e)
      | Inr self3 \<Rightarrow>
     (case fitzp (env_curve_fit env) (env_polyfit env) self3 of
        Inl e \<Rightarrow> (take 4 status_lines, fs, Inl e)
      | Inr self4 \<Rightarrow>
     (case update_header fs self4 of
        Inl (e, fs') \<Rightarrow> (status_lines, fs', Inl (e, self4))
      | Inr fs' \<Rightarrow> (status_lines, fs', Inr self4))))))"

subsection \<open>\<^verbatim>\<open>__init__\<close> and example data\<close>

text \<open>
  \<^verbatim>\<open>getzp.__init__\<close> with \<^verbatim>\<open>norm_exptime = True\<close> (the default; otherwise the image is
  first divided by its exposure time and written to a new file).  The attributes that
  \<^verbatim>\<open>__init__\<close> does not assign are empty here.
\<close>

definition getzp_init ::
  "string \<Rightarrow> string option \<Rightarrow> string \<Rightarrow> real \<Rightarrow> bool \<Rightarrow> int \<Rightarrow> int \<Rightarrow> getzp_obj" where
  "getzp_init image_name instrument filter_name nsigma useri naper mag =
     \<lparr>self_image = image_name, self_instrument = instrument, self_filter = filter_name,
      self_nsigma = nsigma, self_useri = useri, self_naper = naper, self_mag = mag,
      self_keepsection = None, self_secat = \<lparr>n_aper = 0, rows = []\<rparr>,
      self_centerRA = 0, self_centerDEC = 0, self_radius = 0, self_pan = [],
      self_matchflag = [], self_matchedarray1 = \<lparr>n_aper = 0, rows = []\<rparr>,
      self_fitflag = [], self_goodarea_flag = [], self_R = [], self_bestc = [],
      self_x = [], self_y = [], self_yerr = [], self_residual = [],
      self_zpcovar = 0, self_zperr = 0, self_zp = 0\<rparr>"

text \<open>
  An instance of the fitting routine for the examples: for a model of the form
  \<open>f x p = f x 0 + p\<close> the weighted least-squares offset and the variance \<open>1 / \<Sum>w\<close>,
  with weights \<open>w = 1 / sigma\<^sup>2\<close>.  It raises on empty or ill-shaped data.
\<close>

definition example_fit :: curve_fit_fn where
  "example_fit f x y sigma =
     (if x = [] \<or> length y \<noteq> length x \<or> length sigma \<noteq> length x \<or> 0 \<in> set sigma
      then None
      else (let w = map (\<lambda>s. 1 / (s * s)) sigma;
                d = map2 (\<lambda>xi yi. yi - f xi 0) x y
            in Some (sum_list (map2 (*) w d) / sum_list w, 1 / sum_list w)))"

text \<open>
  A detection and a reference star for the examples: a clean point source with six
  apertures at a sky position, and a Pan-STARRS entry of good quality.
\<close>

definition star :: "real \<Rightarrow> real \<Rightarrow> real \<Rightarrow> se_row" where
  "star ra dec m =
     \<lparr>ALPHA_J2000 = ra, DELTA_J2000 = dec, X_IMAGE = 100, Y_IMAGE = 100, FLAGS = 0,
      CLASS_STAR = 0.98, FWHM_IMAGE = 3, MAG_AUTO = m, MAGERR_AUTO = 1, MAG_BEST = m,
      MAGERR_BEST = 1, MAG_PETRO = m, MAGERR_PETRO = 1,
      MAG_APER = replicate 6 m, MAGERR_APER = replicate 6 1\<rparr>"

definition ref_star :: "real \<Rightarrow> real \<Rightarrow> real \<Rightarrow> pan_row" where
  "ref_star ra dec r =
     \<lparr>RAJ2000 = ra, DEJ2000 = dec, Qual = 52, gmag = r + 0.5, rmag = r, e_rmag = 0.01,
      imag = r - 0.2\<rparr>"

text \<open>
  An example world: Source Extractor finds the given detections, the query returns
  the given reference stars, the separation is the sum of the coordinate differences,
  and the fits are \<open>example_fit\<close> and a \<^verbatim>\<open>polyfit\<close> that raises on empty data only.
\<close>

definition example_polyfit :: polyfit_fn where
  "example_polyfit x y deg = (if x = [] then None else Some [1, 0])"

definition example_env :: "se_row list \<Rightarrow> pan_row list \<Rightarrow> zp_env" where
  "example_env stars refs =
     \<lparr>env_sextractor = (\<lambda>name satur fwhm. Some \<lparr>n_aper = 6, rows = stars\<rparr>),
      env_panstarrs_query = (\<lambda>ra dec rad. Some refs),
      env_separation = (\<lambda>(a, d) (a', d'). \<bar>a - a'\<bar> + \<bar>d - d'\<bar>),
      env_curve_fit = example_fit,
      env_polyfit = example_polyfit,
      env_args_fwhm = None\<rparr>"

definition example_files :: files where
  "example_files =
     [''test.coadd.fits'' \<mapsto>
        \<lparr>fits_data = [[1, 2], [3, 4]],
         fits_header = [(''EXPTIME'', HNum 100), (''FILTER'', HStr ''r'')]\<rparr>]"

definition new_obj :: getzp_obj where
  "new_obj = getzp_init ''test.coadd.fits'' (Some ''h'') ''r'' 2 False 5 0"

text \<open>
  The object after \<^verbatim>\<open>runse\<close>, \<^verbatim>\<open>get_panstarrs\<close> and \<^verbatim>\<open>match_coords\<close> in an example world
  where the detections are the reference stars in the same order, all of them good for
  the fit; \<open>ra\<close>, \<open>dec\<close> and \<open>rad\<close> are the centre and the width of the field.
\<close>

definition after_match :: "se_row list \<Rightarrow> pan_row list \<Rightarrow> real \<Rightarrow> real \<Rightarrow> real \<Rightarrow> getzp_obj" where
  "after_match stars refs ra dec rad =
     new_obj\<lparr>self_secat := \<lparr>n_aper = 6, rows = stars\<rparr>,
             self_centerRA := ra, self_centerDEC := dec, self_radius := rad,
             self_pan := refs, self_matchflag := replicate (length refs) True,
             self_matchedarray1 := \<lparr>n_aper = 6, rows = stars\<rparr>,
             self_fitflag := replicate (length refs) True, self_R := map rmag refs\<rparr>"

text \<open>One star in the field, measured 25 magnitudes brighter than the catalogue.\<close>

definition lone_env :: zp_env where
  "lone_env = example_env [star 180 0 (-10)] [ref_star 180 0 15]"

definition lone_matched :: getzp_obj where
  "lone_matched = after_match [star 180 0 (-10)] [ref_star 180 0 15] 180 0 0"

text \<open>
  Four stars at catalogue magnitude 15, measured 24, 26, 23 and 27 magnitudes
  brighter: every point is retained and the second pass repeats the first fit.
\<close>

definition steady_stars :: "se_row list" where
  "steady_stars = [star 180 0 (-9), star 181 0 (-11), star 180 1 (-8), star 181 1 (-12)]"

definition steady_refs :: "pan_row list" where
  "steady_refs = [ref_star 180 0 15, ref_star 181 0 15, ref_star 180 1 15, ref_star 181 1 15]"

definition steady_env :: zp_env where
  "steady_env = example_env steady_stars steady_refs"

definition steady_matched :: getzp_obj where
  "steady_matched = after_match steady_stars steady_refs 180.5 0.5 1"

text \<open>Two reference stars, of which Source Extractor found only the first.\<close>

definition pair_env :: zp_env where
  "pair_env = example_env [star 180 0 (-10)] [ref_star 180 0 15, ref_star 181 0 16]"

text \<open>The object of the two-star example after \<^verbatim>\<open>runse\<close> and \<^verbatim>\<open>get_panstarrs\<close>.\<close>

definition pair_obj :: getzp_obj where
  "pair_obj = new_obj\<lparr>self_secat := \<lparr>n_aper = 6, rows = [star 180 0 (-10)]\<rparr>,
                      self_pan := [ref_star 180 0 15, ref_star 181 0 16]\<rparr>"

text \<open>
  Six stars at catalogue magnitude 15.  Three are measured at -10, the others at -8,
  -6 and 44: the first pass of the loop clips the last two, and the second pass finds
  three of the four remaining residuals equal, so its MAD is 0 and nothing is retained.
  \<open>example_obj\<close> and \<open>example_vars\<close> are the object and the locals at the top of the
  loop.
\<close>

definition six_matched :: getzp_obj where
  "six_matched = after_match
     [star 180 0 (-10), star 181 0 (-10), star 182 0 (-10), star 183 0 (-8),
      star 184 0 (-6), star 185 0 44]
     [ref_star 180 0 15, ref_star 181 0 15, ref_star 182 0 15, ref_star 183 0 15,
      ref_star 184 0 15, ref_star 185 0 15] 182.5 0 5"

definition example_obj :: getzp_obj where
  "example_obj = six_matched\<lparr>self_bestc := [0, 0]\<rparr>"

definition example_vars :: fit_vars where
  "example_vars =
     \<lparr>v_delta = 100, v_x = [15, 15, 15, 15, 15, 15], v_y = [-10, -10, -10, -8, -6, 44],
      v_yerr = [1, 1, 1, 1, 1, 1], v_t = None\<rparr>"

text \<open>
  The states of the two example loops: the locals at the start and the fitted object of
  the four-star run, the object and the locals after the first pass of the six-star run,
  and the object and the locals of the four-star run after a pass (with the \<^verbatim>\<open>delta\<close> of
  that pass).
\<close>

definition steady_vars :: fit_vars where
  "steady_vars =
     \<lparr>v_delta = 100, v_x = [15, 15, 15, 15], v_y = [-9, -11, -8, -12],
      v_yerr = [1, 1, 1, 1], v_t = None\<rparr>"

definition steady_fitted :: getzp_obj where
  "steady_fitted =
     steady_matched\<lparr>self_bestc := [1, -25], self_x := [15, 15, 15, 15],
                    self_y := [-9, -11, -8, -12], self_yerr := [1, 1, 1, 1],
                    self_residual := [-1, 1, -2, 2], self_zpcovar := 1 / 4,
                    self_zperr := sqrt (1 / 4), self_zp := -25\<rparr>"

definition example_obj2 :: getzp_obj where
  "example_obj2 = example_obj\<lparr>self_bestc := [1, -15], self_x := [15, 15, 15, 15, 15, 15],
                      self_y := [-10, -10, -10, -8, -6, 44],
                      self_residual := [10, 10, 10, 8, 6, -44]\<rparr>"

definition example_vars2 :: fit_vars where
  "example_vars2 = \<lparr>v_delta = 15, v_x = [15, 15, 15, 15], v_y = [-10, -10, -10, -8],
           v_yerr = [1, 1, 1, 1], v_t = Some (-15, 1 / 6)\<rparr>"

definition steady_obj1 :: getzp_obj where
  "steady_obj1 = steady_matched\<lparr>self_bestc := [1, -25], self_x := [15, 15, 15, 15],
                      self_y := [-9, -11, -8, -12], self_residual := [-1, 1, -2, 2]\<rparr>"

definition steady_vars1 :: "real \<Rightarrow> fit_vars" where
  "steady_vars1 d = \<lparr>v_delta = d, v_x = [15, 15, 15, 15], v_y = [-9, -11, -8, -12],
           v_yerr = [1, 1, 1, 1], v_t = Some (-25, 1 / 4)\<rparr>"

text \<open>
  The four-star run: the object after \<^verbatim>\<open>runse\<close>, and the file system after
  \<^verbatim>\<open>update_header\<close>.
\<close>

definition steady_seen :: getzp_obj where
  "steady_seen = new_obj\<lparr>self_secat := \<lparr>n_aper = 6, rows = steady_stars\<rparr>,
                  self_centerRA := 180.5, self_centerDEC := 0.5, self_radius := 1\<rparr>"

definition steady_files :: files where
  "steady_files =
     example_files(''test.coadd.fits'' \<mapsto>
            \<lparr>fits_data = [[1, 2], [3, 4]],
             fits_header = [(''EXPTIME'', HNum 100), (''FILTER'', HStr ''r''),
                            (''PHOTZP'', HNum 25), (''PHOTSYS'', HStr ''AB''),
                            (''FLUXZPJY'', HNum 3631)]\<rparr>)"

text \<open>An object whose fit has ended with the intercept -25.0004.\<close>

definition fitted_obj :: getzp_obj where
  "fitted_obj = new_obj\<lparr>self_bestc := [1, - 25.0004]\<rparr>"

section \<open>The cutout tool (plot_cutouts_ha.py)\<close>

subsection \<open>Files, events and the outside world\<close>

text \<open>
  What a file holds, as far as the tool can tell: a FITS image with its header, a FITS
  file without data (\<^verbatim>\<open>fits.getdata\<close> raises IndexError on it), or anything else (a jpeg,
  an archive; \<^verbatim>\<open>fits.getdata\<close> raises OSError on it).
\<close>

datatype content =
    FitsImage "real list list" "(string \<times> hval) list"
  | FitsNoData
  | Blob

text \<open>
  The effects of a run that can be seen from outside, in the order in which they
  happen: a file read, a download (with its URL or query), a figure saved, each with the
  source it belongs to.
\<close>

datatype service = Local | Legacy | Unwise | Galex | Figure

datatype action = Read string | Fetch string | Save string

text \<open>
  The world of the cutout tool: the files (a list of names with contents, in directory
  order) and the log of events.  Directories are not modelled: a path is a name.
\<close>

record cut_world =
  cw_files :: "(string \<times> content) list"
  cw_log :: "(service \<times> action) list"

definition exists_file :: "cut_world \<Rightarrow> string \<Rightarrow> bool" where
  "exists_file w name = (map_of (cw_files w) name \<noteq> None)"

definition write_file :: "string \<Rightarrow> content \<Rightarrow> cut_world \<Rightarrow> cut_world" where
  "write_file name c w = w\<lparr>cw_files := AList.update name c (cw_files w)\<rparr>"

definition remove_file :: "string \<Rightarrow> cut_world \<Rightarrow> cut_world" where
  "remove_file name w = w\<lparr>cw_files := AList.delete name (cw_files w)\<rparr>"

definition log_event :: "service \<Rightarrow> action \<Rightarrow> cut_world \<Rightarrow> cut_world" where
  "log_event svc a w = w\<lparr>cw_log := cw_log w @ [(svc, a)]\<rparr>"

text \<open>
  A computation in the world: the world afterwards, and the error raised or the value.
  \<open>bind_w\<close> runs one after the other and stops at the first error.
\<close>

type_synonym 'a in_world = "cut_world \<Rightarrow> cut_world \<times> (py_error + 'a)"

definition bind_w :: "'a in_world \<Rightarrow> ('a \<Rightarrow> 'b in_world) \<Rightarrow> 'b in_world" where
  "bind_w m f w = (case m w of (w', Inl e) \<Rightarrow> (w', Inl e) | (w', Inr a) \<Rightarrow> f a w')"

definition return_w :: "'a \<Rightarrow> 'a in_world" where
  "return_w a w = (w, Inr a)"

definition raise_w :: "py_error \<Rightarrow> 'a in_world" where
  "raise_w e w = (w, Inl e)"

definition lift_w :: "py_error + 'a \<Rightarrow> 'a in_world" where
  "lift_w m w = (w, m)"

text \<open>\<^verbatim>\<open>fits.getdata(name, header=True)\<close>, logged as a read on behalf of \<open>svc\<close>.\<close>

definition getdata :: "service \<Rightarrow> string \<Rightarrow> (real list list \<times> (string \<times> hval) list) in_world" where
  "getdata svc name w =
     (log_event svc (Read name) w,
      case map_of (cw_files w) name of
        None \<Rightarrow> Inl OSError
      | Some FitsNoData \<Rightarrow> Inl IndexError
      | Some Blob \<Rightarrow> Inl OSError
      | Some (FitsImage d h) \<Rightarrow> Inr (d, h))"

text \<open>
  The outside of the cutout tool: the WCS transformation of pixel to sky coordinates,
  Python's rendering of a float (\<^verbatim>\<open>str(x)\<close> and \<^verbatim>\<open>'%.5f' % x\<close>), \<^verbatim>\<open>urlretrieve\<close> (the
  content behind a URL, \<open>None\<close> when the download raises), the unWISE archive that
  \<^verbatim>\<open>wget.download\<close> fetches (its file name and its members, \<open>None\<close> when the download or
  opening the archive raises), and the function \<^verbatim>\<open>get_galex_image\<close> (MAST query,
  download and cutout; \<open>None\<close> when it raises).
\<close>

record 'w cut_env =
  env_pix2world :: "'w \<Rightarrow> real \<Rightarrow> real \<Rightarrow> real \<times> real"
  env_str :: "real \<Rightarrow> string"
  env_fmt5 :: "real \<Rightarrow> string"
  env_urlretrieve :: "string \<Rightarrow> content option"
  env_wget_tar :: "string \<Rightarrow> (string \<times> (string \<times> content) list) option"
  env_galex :: "real \<Rightarrow> real \<Rightarrow> real \<Rightarrow> real list list option"

subsection \<open>Numbers and names as text\<close>

text \<open>\<^verbatim>\<open>int(x)\<close> of a float: truncation towards zero.\<close>

definition py_int :: "real \<Rightarrow> int" where
  "py_int r = (if r < 0 then \<lceil>r\<rceil> else \<lfloor>r\<rfloor>)"

text \<open>\<^verbatim>\<open>str(n)\<close> of an integer: its decimal digits.\<close>

function str_nat :: "nat \<Rightarrow> string" where
  "str_nat n =
     (if n < 10 then [''0123456789'' ! n]
      else str_nat (n div 10) @ [''0123456789'' ! (n mod 10)])"
  by pat_completeness auto
termination
  by (relation "measure id") auto

declare str_nat.simps [simp del]

definition str_int :: "int \<Rightarrow> string" where
  "str_int i = (if i < 0 then ''-'' @ str_nat (nat (- i)) else str_nat (nat i))"

text \<open>
  The galaxy identifier is a header value.  \<^verbatim>\<open>str(galid)\<close> renders it; \<^verbatim>\<open>'...' + galid\<close>
  raises TypeError unless it is a string.
\<close>

definition str_hval :: "(real \<Rightarrow> string) \<Rightarrow> hval \<Rightarrow> string" where
  "str_hval str v = (case v of HStr s \<Rightarrow> s | HNum r \<Rightarrow> str r)"


subsection \<open>\<^verbatim>\<open>get_legacy_images\<close>\<close>

text \<open>The two file names of a Legacy cutout: \<^verbatim>\<open>fits_name\<close> and \<^verbatim>\<open>jpeg_name\<close>.\<close>

definition legacy_names :: "string \<Rightarrow> int \<Rightarrow> string \<Rightarrow> string \<times> string" where
  "legacy_names galid imsize bands =
     (let root = ''cutouts/'' @ galid @ ''-legacy-'' @ str_int imsize
      in (root @ ''-'' @ bands @ ''.fits'', root @ ''.jpg''))"

definition legacy_jpeg_url :: "string \<Rightarrow> string \<Rightarrow> int \<Rightarrow> int \<Rightarrow> string" where
  "legacy_jpeg_url ra dec imsize pixscale =
     ''http://legacysurvey.org/viewer/jpeg-cutout?ra='' @ ra @ ''&dec='' @ dec
       @ ''&layer=dr8&size='' @ str_int imsize @ ''&pixscale='' @ str_int pixscale"

definition legacy_fits_url :: "string \<Rightarrow> string \<Rightarrow> int \<Rightarrow> int \<Rightarrow> string \<Rightarrow> string" where
  "legacy_fits_url ra dec imsize pixscale bands =
     ''http://legacysurvey.org/viewer/cutout.fits?ra='' @ ra @ ''&dec='' @ dec
       @ ''&layer=dr8&size='' @ str_int imsize @ ''&pixscale='' @ str_int pixscale
       @ ''&bands='' @ bands"

text \<open>
  \<^verbatim>\<open>if not(os.path.exists(name)): urlretrieve(url, name)\<close>: the cache.  A download is
  logged and writes the file; a download that raises ends the call.
\<close>

definition fetch_unless_exists :: "'w cut_env \<Rightarrow> string \<Rightarrow> string \<Rightarrow> unit in_world" where
  "fetch_unless_exists env url name w =
     (if exists_file w name then (w, Inr ())
      else (case env_urlretrieve env url of
              None \<Rightarrow> (log_event Legacy (Fetch url) w, Inl URLError)
            | Some c \<Rightarrow> (write_file name c (log_event Legacy (Fetch url) w), Inr ())))"

text \<open>\<^verbatim>\<open>np.mean(t[1]) == 0\<close>: IndexError without a second row; the mean of an empty row is NaN.\<close>

definition second_row_mean_zero :: "real list list \<Rightarrow> py_error + bool" where
  "second_row_mean_zero t =
     (if length t < 2 then Inl IndexError
      else Inr (t ! 1 \<noteq> [] \<and> sum_list (t ! 1) / real (length (t ! 1)) = 0))"

text \<open>
  The end of \<^verbatim>\<open>get_legacy_images\<close>: the FITS file is read, and the result is \<open>None\<close>
  (the second row of the image has mean 0) or the pair \<^verbatim>\<open>(fits_name, jpeg_name)\<close>.  The
  handler of IndexError reads the names \<^verbatim>\<open>ra1\<close>, \<^verbatim>\<open>dec1\<close> and \<^verbatim>\<open>image_size\<close>, which nothing
  defines, and so raises NameError; with \<^verbatim>\<open>makeplots\<close> the undefined name \<^verbatim>\<open>jpeg\<close> does
  the same.
\<close>

definition legacy_read ::
  "string \<Rightarrow> string \<Rightarrow> bool \<Rightarrow> (string \<times> string) option in_world" where
  "legacy_read fits_name jpeg_name makeplots =
     (\<lambda>w. case getdata Legacy fits_name w of
             (w', Inl e) \<Rightarrow> (w', Inl (if e = IndexError then NameError else e))
           | (w', Inr (t, h)) \<Rightarrow>
               (case second_row_mean_zero t of
                  Inl e \<Rightarrow> (w', Inl e)
                | Inr True \<Rightarrow> (w', Inr None)
                | Inr False \<Rightarrow>
                    if makeplots then (w', Inl NameError)
                    else (w', Inr (Some (fits_name, jpeg_name)))))"

text \<open>
  \<^verbatim>\<open>get_legacy_images(ra, dec, galid, pixscale, imsize, bands, makeplots)\<close>: the two
  cached downloads, then the read.
\<close>

definition get_legacy_images ::
  "'w cut_env \<Rightarrow> real \<Rightarrow> real \<Rightarrow> hval \<Rightarrow> int \<Rightarrow> real \<Rightarrow> string \<Rightarrow> bool
     \<Rightarrow> (string \<times> string) option in_world" where
  "get_legacy_images env ra dec galid pixscale imsize0 bands makeplots =
     (let imsize = py_int imsize0;
          (fits_name, jpeg_name) = legacy_names (str_hval (env_str env) galid) imsize bands
      in bind_w (fetch_unless_exists env
                   (legacy_jpeg_url (env_str env ra) (env_str env dec) imsize pixscale) jpeg_name)
           (\<lambda>_.
         bind_w (fetch_unless_exists env
                   (legacy_fits_url (env_str env ra) (env_str env dec) imsize pixscale bands)
                   fits_name) (\<lambda>_.
         legacy_read fits_name jpeg_name makeplots)))"

text \<open>The downloads in the log of a world.\<close>

definition is_fetch :: "service \<times> action \<Rightarrow> bool" where
  "is_fetch e = (case snd e of Fetch _ \<Rightarrow> True | _ \<Rightarrow> False)"

definition fetches :: "cut_world \<Rightarrow> (service \<times> action) list" where
  "fetches w = filter is_fetch (cw_log w)"

subsection \<open>\<^verbatim>\<open>get_unwise_image\<close>\<close>


text \<open>
  One round of the loop over the members of the archive: the member is renamed into
  the cutout directory under the galaxy's name (a file that is in the way is removed
  first), unpacked when its name ends in \<^verbatim>\<open>.gz\<close> (\<^verbatim>\<open>gunzip\<close> replaces it by a file of the
  same name without the ending; on any other name with \<^verbatim>\<open>.gz\<close> in it the command fails
  and nothing happens), and listed when it is an image.
\<close>

definition unwise_member :: "string \<Rightarrow> string \<Rightarrow> string list \<Rightarrow> string list in_world" where
  "unwise_member galid fname image_names w =
     (let t = split_py fname ''-'' in
      if length t < 5 then (w, Inl IndexError)
      else
        (let rename = ''cutouts/'' @ galid @ ''-'' @ t ! 0 @ ''-'' @ t ! 1 @ ''-'' @ t ! 2
                        @ ''-'' @ t ! 3 @ ''-'' @ t ! 4;
             w1 = (if exists_file w rename then remove_file rename w else w)
         in case map_of (cw_files w1) fname of
              None \<Rightarrow> (w1, Inl OSError)
            | Some c \<Rightarrow>
                (let w2 = write_file rename c (remove_file fname w1);
                     n = length rename;
                     w3 = (if find_py rename ''.gz'' > -1 \<and> 3 \<le> n \<and> drop (n - 3) rename = ''.gz''
                           then write_file (take (n - 3) rename) c (remove_file rename w2)
                           else w2)
                 in (w3, Inr (if find_py fname ''img'' > -1 then image_names @ [rename]
                              else image_names)))))"

fun unwise_members :: "string \<Rightarrow> string list \<Rightarrow> string list \<Rightarrow> string list in_world" where
  "unwise_members galid [] image_names = return_w image_names"
| "unwise_members galid (fname # rest) image_names =
     bind_w (unwise_member galid fname image_names) (unwise_members galid rest)"


subsection \<open>The class \<^verbatim>\<open>cutouts\<close>\<close>

text \<open>
  The attributes of a \<^verbatim>\<open>cutouts\<close> object, \<^verbatim>\<open>self.name\<close> written \<open>cut_name\<close>.  \<open>'w\<close> is
  the type of the astropy WCS object, which the model never inspects.  An attribute
  that is not assigned yet holds an arbitrary value; \<^verbatim>\<open>runall\<close> reads none before it is
  assigned, except the four unWISE images, which are options.
\<close>

record 'w cutouts_obj =
  cut_r_name :: string
  cut_wcs :: 'w
  cut_rootname :: string
  cut_r :: "real list list"
  cut_header :: "(string \<times> hval) list"
  cut_ha :: "real list list"
  cut_cs :: "real list list"
  cut_xsize_pix :: nat
  cut_ysize_pix :: nat
  cut_pscale :: real
  cut_xsize_arcsec :: real
  cut_ysize_arcsec :: real
  cut_ra :: real
  cut_dec :: real
  cut_galid :: hval
  cut_legacy_imsize :: real
  cut_legacy_filename_g :: string
  cut_legacy_filename_r :: string
  cut_legacy_filename_z :: string
  cut_legacy_jpegname :: string
  cut_legacy_g :: "real list list"
  cut_legacy_r :: "real list list"
  cut_legacy_z :: "real list list"
  cut_wise_band :: string
  cut_wise_imsize :: real
  cut_wise_filenames :: "string list"
  cut_wise_multiframe_flag :: bool
  cut_w1 :: "real list list option"
  cut_w2 :: "real list list option"
  cut_w3 :: "real list list option"
  cut_w4 :: "real list list option"
  cut_nuv_image_name :: string
  cut_nuv_image :: "real list list"

text \<open>
  The local variable \<^verbatim>\<open>split_string\<close> of \<^verbatim>\<open>__init__\<close>: \<open>None\<close> while it is unbound.
  The first \<^verbatim>\<open>if\<close> stands alone; the second has an \<^verbatim>\<open>elif\<close>.
\<close>

definition split_string_of :: "string \<Rightarrow> string option" where
  "split_string_of rimage =
     (let s1 = (if find_py rimage ''_R'' > -1 then Some ''_R.fits'' else None)
      in if find_py rimage ''-R'' > -1 then Some ''-R.fits''
         else if find_py rimage ''-r'' > -1 then Some ''_r.fits''
         else s1)"

text \<open>
  \<^verbatim>\<open>cutouts.__init__\<close>.  \<open>WCS\<close> is astropy's constructor, an external call that may raise
  (\<open>None\<close>).  Reading the unbound \<^verbatim>\<open>split_string\<close> raises UnboundLocalError.
  \<^verbatim>\<open>split(...)[0]\<close> never fails: the result of \<^verbatim>\<open>split\<close> has at least one element.
\<close>

definition cutouts_init :: "(string \<Rightarrow> 'w option) \<Rightarrow> string \<Rightarrow> py_error + 'w cutouts_obj" where
  "cutouts_init WCS rimage =
     (case WCS rimage of
        None \<Rightarrow> Inl ExternalError
      | Some w \<Rightarrow>
          (case split_string_of rimage of
             None \<Rightarrow> Inl UnboundLocalError
           | Some split_string \<Rightarrow>
               Inr \<lparr>cut_r_name = rimage, cut_wcs = w,
                    cut_rootname = hd (split_py rimage split_string),
                    cut_r = [], cut_header = [], cut_ha = [], cut_cs = [],
                    cut_xsize_pix = 0, cut_ysize_pix = 0, cut_pscale = 0,
                    cut_xsize_arcsec = 0, cut_ysize_arcsec = 0, cut_ra = 0, cut_dec = 0,
                    cut_galid = HStr [], cut_legacy_imsize = 0,
                    cut_legacy_filename_g = [], cut_legacy_filename_r = [],
                    cut_legacy_filename_z = [], cut_legacy_jpegname = [],
                    cut_legacy_g = [], cut_legacy_r = [], cut_legacy_z = [],
                    cut_wise_band = [], cut_wise_imsize = 0, cut_wise_filenames = [],
                    cut_wise_multiframe_flag = False,
                    cut_w1 = None, cut_w2 = None, cut_w3 = None, cut_w4 = None,
                    cut_nuv_image_name = [], cut_nuv_image = []\<rparr>))"

subsection \<open>The stages of \<^verbatim>\<open>runall\<close>\<close>



















subsection \<open>The order of the events of a run\<close>

text \<open>
  The sources of the events in the order in which \<^verbatim>\<open>runall\<close> turns to them: the local
  images, the Legacy Survey, unWISE, GALEX, the figure.  A list of events is in order
  when the sources never go back in it.
\<close>

definition service_rank :: "service \<Rightarrow> nat" where
  "service_rank s = (case s of Local \<Rightarrow> 0 | Legacy \<Rightarrow> 1 | Unwise \<Rightarrow> 2 | Galex \<Rightarrow> 3 | Figure \<Rightarrow> 4)"

definition in_order :: "(service \<times> action) list \<Rightarrow> bool" where
  "in_order ev = sorted (map (service_rank \<circ> fst) ev)"

text \<open>
  Two properties of a computation in the world, for the stages of \<^verbatim>\<open>runall\<close>.
  \<open>ranked lo hi m\<close>: from whatever world it starts, \<open>m\<close> adds events to the log that are
  in order and whose sources have a rank between \<open>lo\<close> and \<open>hi\<close>, also when it raises.
  \<open>unsaved m\<close>: when \<open>m\<close> ends in an error, no event it added saves a figure.
\<close>

definition ranked :: "nat \<Rightarrow> nat \<Rightarrow> 'a in_world \<Rightarrow> bool" where
  "ranked lo hi m \<longleftrightarrow>
     (\<forall>w. \<exists>ev. cw_log (fst (m w)) = cw_log w @ ev \<and> in_order ev
               \<and> (\<forall>e \<in> set ev. lo \<le> service_rank (fst e) \<and> service_rank (fst e) \<le> hi))"




subsection \<open>An example world\<close>

text \<open>
  A galaxy with its three local images of two by two pixels and 30 arcsec per pixel,
  an outside world in which every download succeeds, and one in which the Legacy
  Survey server cannot be reached.
\<close>

definition sky_image :: content where
  "sky_image = FitsImage [[1, 2], [3, 4]] []"

definition online_env :: "unit cut_env" where
  "online_env =
     \<lparr>env_pix2world = (\<lambda>_ x y. (180, 20)),
      env_str = (\<lambda>r. if r = 180 then ''180.0'' else if r = 20 then ''20.0'' else ''0.0''),
      env_fmt5 = (\<lambda>r. if r = 180 then ''180.00000'' else if r = 20 then ''20.00000''
                      else ''0.00000''),
      env_urlretrieve = (\<lambda>url. if find_py url ''jpeg-cutout'' > -1 then Some Blob
                               else Some sky_image),
      env_wget_tar = (\<lambda>url. Some (''cutout.tar.gz'',
         [(''unwise-1800p196-w1-img-m.fits'', sky_image),
          (''unwise-1800p196-w1-invvar-m.fits.gz'', Blob),
          (''unwise-1800p196-w2-img-m.fits'', sky_image),
          (''unwise-1800p196-w3-img-m.fits'', sky_image),
          (''unwise-1800p196-w4-img-m.fits'', sky_image)])),
      env_galex = (\<lambda>ra dec size. Some [[5, 6], [7, 8]])\<rparr>"


definition local_world :: cut_world where
  "local_world =
     \<lparr>cw_files =
        [(''A1367-113364-R.fits'',
            FitsImage [[1, 2], [3, 4]] [(''CD1_1'', HNum (- (1 / 120))), (''ID'', HStr ''113364'')]),
         (''A1367-113364-Ha.fits'', sky_image),
         (''A1367-113364-CS.fits'', sky_image)],
      cw_log = []\<rparr>"

text \<open>
  The two URLs of the g-band cutout of the example, and the world after the first call
  of \<^verbatim>\<open>get_legacy_images\<close> for that band.
\<close>

definition g_jpeg_url :: string where
  "g_jpeg_url = legacy_jpeg_url ''180.0'' ''20.0'' 60 1"

definition g_fits_url :: string where
  "g_fits_url = legacy_fits_url ''180.0'' ''20.0'' 60 1 ''g''"

definition g_world :: cut_world where
  "g_world =
     \<lparr>cw_files = cw_files local_world
          @ [(''cutouts/113364-legacy-60.jpg'', Blob),
             (''cutouts/113364-legacy-60-g.fits'', sky_image)],
      cw_log = [(Legacy, Fetch g_jpeg_url), (Legacy, Fetch g_fits_url),
                (Legacy, Read ''cutouts/113364-legacy-60-g.fits'')]\<rparr>"






section \<open>Properties\<close>

subsection \<open>C1: the fit loop is bounded\<close>

lemma passes_left_le: "passes_left curve_fit self v \<le> max 1 (length (v_x v))"
  by (simp add: passes_left_def split: option.splits)

lemma passes_left_pos: "v_delta v > 1 / 1000 \<Longrightarrow> 1 \<le> passes_left curve_fit self v"
  by (simp add: passes_left_def split: option.splits)

lemma fitzp_loop_passes: "fst (fitzp_loop curve_fit self v) \<le> passes_left curve_fit self v"
proof (induction curve_fit self v rule: fitzp_loop.induct)
  case (1 curve_fit self v)
  show ?case
  proof (cases "v_delta v > 1 / 1000")
    case False
    then show ?thesis by (simp add: fitzp_loop.simps[of curve_fit self v])
  next
    case True
    show ?thesis
    proof (cases "fitzp_body curve_fit self v")
      case (Inl e)
      then show ?thesis
        using True passes_left_pos[OF True, of curve_fit self]
        by (simp add: fitzp_loop.simps[of curve_fit self v])
    next
      case (Inr p)
      obtain self' v' where p: "p = (self', v')" by (cases p)
      have "fst (fitzp_loop curve_fit self' v') \<le> passes_left curve_fit self' v'"
        using "1.IH"[OF True] Inr p by simp
      moreover have "passes_left curve_fit self' v' < passes_left curve_fit self v"
        using passes_left_decreases[OF True] Inr p by simp
      ultimately show ?thesis
        using True Inr p
        by (simp add: fitzp_loop.simps[of curve_fit self v] case_prod_beta)
    qed
  qed
qed

text \<open>
  C1.  For every fitting routine, every object and every data set \<open>x\<close>, \<open>y\<close>, \<open>yerr\<close>,
  the loop of \<^verbatim>\<open>fitzp\<close> terminates (\<open>fitzp_loop\<close> is a total function, by the
  termination proof above), and the number of passes through its body is at most the
  number of data points, or one when there are none.
\<close>

theorem fitzp_loop_bounded:
  "fst (fitzp_loop curve_fit self v) \<le> max 1 (length (v_x v))"
  using fitzp_loop_passes[of curve_fit self v] passes_left_le[of curve_fit self v]
  by linarith


subsection \<open>C2: clipping by the median absolute deviation\<close>

lemma polyval_zpfunc: "polyval [1, zp] x = zpfunc x zp"
  by (simp add: polyval_def zpfunc_def)

lemma mask_nths:
  "length flag = length a \<Longrightarrow> mask flag a = nths a {i. i < length flag \<and> flag ! i}"
proof (induction flag arbitrary: a)
  case Nil
  then show ?case by (simp add: mask_def)
next
  case (Cons b bs)
  then obtain h t where a: "a = h # t" by (cases a) auto
  with Cons.prems have len: "length bs = length t" by simp
  have "{j. Suc j \<in> {i. i < length (b # bs) \<and> (b # bs) ! i}} = {i. i < length bs \<and> bs ! i}"
    by auto
  then show ?case
    using Cons.IH[OF len] by (simp add: a nths_Cons) (simp add: mask_def)
qed

lemma clip_flag_nth:
  "i < length residual \<Longrightarrow>
   clip_flag nsigma residual ! i
     = (\<bar>residual ! i - median residual\<bar>
          < nsigma * (1.48 * median (map (\<lambda>r. \<bar>r - median residual\<bar>) residual)))"
  by (simp add: clip_flag_def Let_def)

lemma body_residual_zpfunc:
  "body_residual zp v = map2 (\<lambda>xi yi. zpfunc xi zp - yi) (v_x v) (v_y v)"
  by (simp add: body_residual_def polyval_zpfunc zip_map1 case_prod_beta)

lemma example_fit_pass1:
  "example_fit zpfunc [15, 15, 15, 15, 15, 15] [-10, -10, -10, -8, -6, 44] [1, 1, 1, 1, 1, 1]
     = Some (-15, 1 / 6)"
  by (simp add: example_fit_def zpfunc_def)

lemma example_flag_pass1:
  "clip_flag 2 [10, 10, 10, 8, 6, -44] = [True, True, True, True, False, False]"
  by (simp add: clip_flag_def median_def)

lemma example_body_pass1:
  "fitzp_body example_fit example_obj example_vars =
     Inr (example_obj\<lparr>self_bestc := [1, -15], self_x := [15, 15, 15, 15, 15, 15],
                      self_y := [-10, -10, -10, -8, -6, 44],
                      self_residual := [10, 10, 10, 8, 6, -44]\<rparr>,
          \<lparr>v_delta = 15, v_x = [15, 15, 15, 15], v_y = [-10, -10, -10, -8],
           v_yerr = [1, 1, 1, 1], v_t = Some (-15, 1 / 6)\<rparr>)"
  by (simp add: fitzp_body_def example_vars_def example_fit_pass1 polyval_zpfunc zpfunc_def
       arr_sub_def example_obj_def six_matched_def after_match_def new_obj_def getzp_init_def
       example_flag_pass1 sum_flag_def
       bool_index_def mask_def)

lemma card_flag: "card {i. i < length flag \<and> flag ! i} = sum_flag flag"
proof -
  have "length (mask flag flag) = sum_flag flag"
    by (rule length_mask) simp
  moreover have "mask flag flag = nths flag {i. i < length flag \<and> flag ! i}"
    by (rule mask_nths) simp
  moreover have "{i. i < length flag \<and> i \<in> {i. i < length flag \<and> flag ! i}}
                   = {i. i < length flag \<and> flag ! i}"
    by auto
  ultimately show ?thesis
    by (simp add: length_nths)
qed

lemma kept_flag:
  "{i. i < length residual \<and>
       \<bar>residual ! i - median residual\<bar>
         < nsigma * (1.48 * median (map (\<lambda>r. \<bar>r - median residual\<bar>) residual))}
   = {i. i < length (clip_flag nsigma residual) \<and> clip_flag nsigma residual ! i}"
  by (auto simp: clip_flag_nth length_clip_flag)

lemma fitzp_body_continues:
  assumes cf: "curve_fit zpfunc (v_x v) (v_y v) (v_yerr v) = Some t"
    and ly: "length (v_y v) = length (v_x v)"
    and le: "length (v_yerr v) = length (v_x v)"
    and lb: "2 \<le> length (self_bestc self)"
    and fl: "flag = clip_flag (self_nsigma self) (body_residual (fst t) v)"
    and two: "2 \<le> sum_flag flag"
  shows "fitzp_body curve_fit self v =
           Inr (self\<lparr>self_bestc := [1, fst t], self_x := v_x v, self_y := v_y v,
                     self_residual := body_residual (fst t) v\<rparr>,
                \<lparr>v_delta = \<bar>self_bestc self ! 1 - fst t\<bar>, v_x = mask flag (v_x v),
                 v_y = mask flag (v_y v), v_yerr = mask flag (v_yerr v), v_t = Some t\<rparr>)"
proof -
  have lf: "length flag = length (v_x v)"
    using ly by (simp add: fl length_clip_flag body_residual_def)
  have res: "arr_sub (map (polyval [1, fst t]) (v_x v)) (v_y v) = Inr (body_residual (fst t) v)"
    using ly by (simp add: arr_sub_def body_residual_def)
  show ?thesis
    using lb two lf le
    by (simp add: fitzp_body_def cf res Let_def fl[symmetric] bool_index_def)
qed

lemma fitzp_body_Inr_bestc:
  assumes "fitzp_body curve_fit self v = Inr p"
  shows "2 \<le> length (self_bestc self)"
proof (cases "curve_fit zpfunc (v_x v) (v_y v) (v_yerr v)")
  case None
  with assms show ?thesis by (simp add: fitzp_body_def)
next
  case (Some t)
  from assms Some have len: "length (v_x v) = length (v_y v)"
    by (simp add: fitzp_body_def Let_def arr_sub_def split: if_splits)
  with assms Some have "\<not> length (self_bestc self) < 2"
    by (simp add: fitzp_body_def Let_def arr_sub_def split: if_splits)
  then show ?thesis by simp
qed

lemma example_nsigma1: "self_nsigma example_obj = 2"
  by (simp add: example_obj_def six_matched_def after_match_def new_obj_def getzp_init_def)

lemma example_bestc1: "self_bestc example_obj = [0, 0]"
  by (simp add: example_obj_def)

lemma example_kept_pass1:
  "{i. i < length [10, 10, 10, 8, 6, -44 :: real] \<and>
       \<bar>[10, 10, 10, 8, 6, -44] ! i - median [10, 10, 10, 8, 6, -44]\<bar>
         < 2 * (1.48 * median (map (\<lambda>r. \<bar>r - median [10, 10, 10, 8, 6, -44]\<bar>)
                                [10, 10, 10, 8, 6, -44]))}
   = {0, 1, 2, 3}"
  unfolding kept_flag example_flag_pass1
  by (auto simp: nth_Cons' less_Suc_eq numeral_eq_Suc split: if_splits)

lemma nths_first4: "nths [a, b, c, d, e, f] {0, Suc 0, 2, 3} = [a, b, c, d]"
  by (simp add: nths_Cons numeral_eq_Suc)

lemma example_residual_pass1:
  "map2 (\<lambda>xi yi. zpfunc xi (-15) - yi) (v_x example_vars) (v_y example_vars)
     = [10, 10, 10, 8, 6, -44]"
  by (simp add: example_vars_def zpfunc_def)

lemma example_pass1_continues:
  "\<exists>zp cov.
      example_fit zpfunc (v_x example_vars) (v_y example_vars) (v_yerr example_vars)
        = Some (zp, cov) \<and>
      length (v_y example_vars) = length (v_x example_vars) \<and>
      length (v_yerr example_vars) = length (v_x example_vars) \<and>
      2 \<le> length (self_bestc example_obj) \<and>
      (let residual = map2 (\<lambda>xi yi. zpfunc xi zp - yi) (v_x example_vars) (v_y example_vars);
           MAD = 1.48 * median (map (\<lambda>r. \<bar>r - median residual\<bar>) residual);
           kept = {i. i < length residual
                      \<and> \<bar>residual ! i - median residual\<bar> < self_nsigma example_obj * MAD}
       in 2 \<le> card kept \<and>
          example_obj\<lparr>self_bestc := [1, -15], self_x := [15, 15, 15, 15, 15, 15],
                      self_y := [-10, -10, -10, -8, -6, 44],
                      self_residual := [10, 10, 10, 8, 6, -44]\<rparr>
            = example_obj\<lparr>self_bestc := [1, zp], self_x := v_x example_vars,
                        self_y := v_y example_vars, self_residual := residual\<rparr> \<and>
          \<lparr>v_delta = 15, v_x = [15, 15, 15, 15], v_y = [-10, -10, -10, -8],
           v_yerr = [1, 1, 1, 1], v_t = Some (-15, 1 / 6)\<rparr>
            = \<lparr>v_delta = \<bar>self_bestc example_obj ! 1 - zp\<bar>, v_x = nths (v_x example_vars) kept,
                v_y = nths (v_y example_vars) kept, v_yerr = nths (v_yerr example_vars) kept,
                v_t = Some (zp, cov)\<rparr>)"
proof -
  have c: "2 \<le> card {0, 1, 2, 3 :: nat}"
    by simp
  show ?thesis
    apply (rule exI[of _ "-15"])
    apply (rule exI[of _ "1 / 6"])
    unfolding Let_def example_residual_pass1 example_nsigma1 example_kept_pass1
    using c
    by (simp add: example_vars_def example_fit_pass1 example_bestc1 nths_first4)
qed

text \<open>
  C2.  A pass of the loop goes on to a next pass exactly when the fit returned a value
  \<open>zp\<close>, the arrays \<open>x\<close>, \<open>y\<close> and \<open>yerr\<close> have one length, \<^verbatim>\<open>self.bestc\<close> has two
  entries, and at least two points pass the clipping test.  Then, with
  \<open>residual = yfit - y\<close> for the current fit \<open>yfit = x + zp\<close> and
  \<open>MAD = 1.48 * median |residual - median residual|\<close>, the arrays \<open>x\<close>, \<open>y\<close> and \<open>yerr\<close> of
  the next pass hold exactly the points whose index \<open>i\<close> satisfies
  \<open>|residual[i] - median residual| < nsigma * MAD\<close>, in their order, and the object keeps
  the fit, the arrays and the residual of this pass.  In the example of six stars the
  first pass retains the first four.
\<close>

theorem fitzp_body_retains_mad:
  "fitzp_body curve_fit self v = Inr (self', v') \<longleftrightarrow>
   (\<exists>zp cov.
      curve_fit zpfunc (v_x v) (v_y v) (v_yerr v) = Some (zp, cov) \<and>
      length (v_y v) = length (v_x v) \<and> length (v_yerr v) = length (v_x v) \<and>
      2 \<le> length (self_bestc self) \<and>
      (let residual = map2 (\<lambda>xi yi. zpfunc xi zp - yi) (v_x v) (v_y v);
           MAD = 1.48 * median (map (\<lambda>r. \<bar>r - median residual\<bar>) residual);
           kept = {i. i < length residual
                      \<and> \<bar>residual ! i - median residual\<bar> < self_nsigma self * MAD}
       in 2 \<le> card kept \<and>
          self' = self\<lparr>self_bestc := [1, zp], self_x := v_x v, self_y := v_y v,
                        self_residual := residual\<rparr> \<and>
          v' = \<lparr>v_delta = \<bar>self_bestc self ! 1 - zp\<bar>, v_x = nths (v_x v) kept,
                v_y = nths (v_y v) kept, v_yerr = nths (v_yerr v) kept,
                v_t = Some (zp, cov)\<rparr>))"
  (is "?L \<longleftrightarrow> ?R")
proof
  assume L: ?L
  from fitzp_body_Inr[OF L] obtain t flag where
    cf: "curve_fit zpfunc (v_x v) (v_y v) (v_yerr v) = Some t"
    and fl: "flag = clip_flag (self_nsigma self) (body_residual (fst t) v)"
    and ly: "length (v_x v) = length (v_y v)" and le: "length (v_yerr v) = length (v_x v)"
    and lf: "length flag = length (v_x v)"
    and two: "2 \<le> sum_flag flag"
    and s': "self' = self\<lparr>self_bestc := [1, fst t], self_x := v_x v, self_y := v_y v,
                          self_residual := body_residual (fst t) v\<rparr>"
    and v': "v' = \<lparr>v_delta = \<bar>self_bestc self ! 1 - fst t\<bar>, v_x = mask flag (v_x v),
                  v_y = mask flag (v_y v), v_yerr = mask flag (v_yerr v), v_t = Some t\<rparr>"
    by blast
  have lb: "2 \<le> length (self_bestc self)"
    using fitzp_body_Inr_bestc[OF L] .
  define residual where "residual = map2 (\<lambda>xi yi. zpfunc xi (fst t) - yi) (v_x v) (v_y v)"
  define MAD where "MAD = 1.48 * median (map (\<lambda>r. \<bar>r - median residual\<bar>) residual)"
  define kept where
    "kept = {i. i < length residual \<and> \<bar>residual ! i - median residual\<bar> < self_nsigma self * MAD}"
  have res: "body_residual (fst t) v = residual"
    by (simp add: residual_def body_residual_zpfunc)
  have k: "kept = {i. i < length flag \<and> flag ! i}"
    unfolding kept_def MAD_def fl res by (rule kept_flag)
  have m: "mask flag (v_x v) = nths (v_x v) kept" "mask flag (v_y v) = nths (v_y v) kept"
    "mask flag (v_yerr v) = nths (v_yerr v) kept"
    using mask_nths[of flag "v_x v"] mask_nths[of flag "v_y v"] mask_nths[of flag "v_yerr v"]
      lf ly le k by simp_all
  have c: "2 \<le> card kept"
    using two by (simp add: k card_flag)
  have "curve_fit zpfunc (v_x v) (v_y v) (v_yerr v) = Some (fst t, snd t) \<and>
      length (v_y v) = length (v_x v) \<and> length (v_yerr v) = length (v_x v) \<and>
      2 \<le> length (self_bestc self) \<and>
      2 \<le> card kept \<and>
          self' = self\<lparr>self_bestc := [1, fst t], self_x := v_x v, self_y := v_y v,
                        self_residual := residual\<rparr> \<and>
          v' = \<lparr>v_delta = \<bar>self_bestc self ! 1 - fst t\<bar>, v_x = nths (v_x v) kept,
                v_y = nths (v_y v) kept, v_yerr = nths (v_yerr v) kept,
                v_t = Some (fst t, snd t)\<rparr>"
    using cf ly le lb c s' v' m res by simp
  then show ?R
    unfolding kept_def MAD_def residual_def Let_def by blast
next
  assume ?R
  then obtain zp cov where
    cf: "curve_fit zpfunc (v_x v) (v_y v) (v_yerr v) = Some (zp, cov)"
    and ly: "length (v_y v) = length (v_x v)" and le: "length (v_yerr v) = length (v_x v)"
    and lb: "2 \<le> length (self_bestc self)"
    and rest: "let residual = map2 (\<lambda>xi yi. zpfunc xi zp - yi) (v_x v) (v_y v);
           MAD = 1.48 * median (map (\<lambda>r. \<bar>r - median residual\<bar>) residual);
           kept = {i. i < length residual
                      \<and> \<bar>residual ! i - median residual\<bar> < self_nsigma self * MAD}
       in 2 \<le> card kept \<and>
          self' = self\<lparr>self_bestc := [1, zp], self_x := v_x v, self_y := v_y v,
                        self_residual := residual\<rparr> \<and>
          v' = \<lparr>v_delta = \<bar>self_bestc self ! 1 - zp\<bar>, v_x = nths (v_x v) kept,
                v_y = nths (v_y v) kept, v_yerr = nths (v_yerr v) kept,
                v_t = Some (zp, cov)\<rparr>"
    by (elim exE conjE)
  define flag where "flag = clip_flag (self_nsigma self) (body_residual zp v)"
  define residual where "residual = map2 (\<lambda>xi yi. zpfunc xi zp - yi) (v_x v) (v_y v)"
  define kept where
    "kept = {i. i < length residual \<and> \<bar>residual ! i - median residual\<bar>
               < self_nsigma self * (1.48 * median (map (\<lambda>r. \<bar>r - median residual\<bar>) residual))}"
  have res: "body_residual zp v = residual"
    by (simp add: residual_def body_residual_zpfunc)
  have k: "kept = {i. i < length flag \<and> flag ! i}"
    unfolding kept_def flag_def res by (rule kept_flag)
  have lf: "length flag = length (v_x v)"
    using ly by (simp add: flag_def length_clip_flag body_residual_def)
  have m: "mask flag (v_x v) = nths (v_x v) kept" "mask flag (v_y v) = nths (v_y v) kept"
    "mask flag (v_yerr v) = nths (v_yerr v) kept"
    using mask_nths[of flag "v_x v"] mask_nths[of flag "v_y v"] mask_nths[of flag "v_yerr v"]
      lf ly le k by simp_all
  from rest have c: "2 \<le> card kept"
    and s': "self' = self\<lparr>self_bestc := [1, zp], self_x := v_x v, self_y := v_y v,
                        self_residual := residual\<rparr>"
    and v': "v' = \<lparr>v_delta = \<bar>self_bestc self ! 1 - zp\<bar>, v_x = nths (v_x v) kept,
                v_y = nths (v_y v) kept, v_yerr = nths (v_yerr v) kept,
                v_t = Some (zp, cov)\<rparr>"
    unfolding Let_def kept_def residual_def by simp_all
  have two: "2 \<le> sum_flag flag"
    using c by (simp add: k card_flag)
  have fl: "flag = clip_flag (self_nsigma self) (body_residual (fst (zp, cov)) v)"
    by (simp add: flag_def)
  show ?L
    using fitzp_body_continues[of curve_fit v "(zp, cov)" self flag, OF cf ly le lb fl two]
      s' v' m res by simp
qed


theorem fitzp_body_retains_mad_witness:
  "fitzp_body example_fit example_obj example_vars =
     Inr (example_obj\<lparr>self_bestc := [1, -15], self_x := [15, 15, 15, 15, 15, 15],
                      self_y := [-10, -10, -10, -8, -6, 44],
                      self_residual := [10, 10, 10, 8, 6, -44]\<rparr>,
          \<lparr>v_delta = 15, v_x = [15, 15, 15, 15], v_y = [-10, -10, -10, -8],
           v_yerr = [1, 1, 1, 1], v_t = Some (-15, 1 / 6)\<rparr>)"
  using fitzp_body_retains_mad[of example_fit example_obj example_vars _ _, THEN iffD2,
          OF example_pass1_continues]
  by simp


subsection \<open>Evaluating the examples\<close>

lemmas example_defs = lone_env_def steady_env_def pair_env_def example_env_def example_files_def
  new_obj_def getzp_init_def star_def ref_star_def example_obj_def example_vars_def
  example_polyfit_def after_match_def lone_matched_def steady_matched_def steady_stars_def
  steady_refs_def six_matched_def

lemmas stage_defs = raising_def match_to_catalog_sky_def nearest_def bool_index_def mask_def
  take_idx_def mask_assign_def sum_flag_def flag_and_def zero_row_def Let_def

subsection \<open>C7: the matched arrays are aligned with the reference catalogue\<close>

lemma raising_Inr:
  "raising m self f = Inr r \<longleftrightarrow> (\<exists>a. m = Inr a \<and> f a = Inr r)"
  by (cases m) (simp_all add: raising_def)

lemma length_put_mask: "length (put_mask a flag vals) = length a"
  by (induction a flag vals rule: put_mask.induct) simp_all

lemma mask_Cons: "mask (b # bs) (x # xs) = (if b then x # mask bs xs else mask bs xs)"
  by (simp add: mask_def)

lemma mask_Nil: "mask [] xs = []"
  by (simp add: mask_def)

lemma put_mask_nth:
  "length a = length flag \<Longrightarrow> length idx = length flag \<Longrightarrow> i < length flag \<Longrightarrow>
   put_mask a flag (map f (mask flag idx)) ! i = (if flag ! i then f (idx ! i) else a ! i)"
proof (induction flag arbitrary: a idx i)
  case Nil
  then show ?case by simp
next
  case (Cons b bs)
  from Cons.prems obtain a0 as where a: "a = a0 # as" by (cases a) auto
  from Cons.prems obtain j js where idx: "idx = j # js" by (cases idx) auto
  from Cons.prems a idx have len: "length as = length bs" "length js = length bs" by simp_all
  show ?case
  proof (cases i)
    case 0
    then show ?thesis by (cases b) (simp_all add: a idx mask_Cons)
  next
    case (Suc k)
    with Cons.prems have k: "k < length bs" by simp
    show ?thesis
    proof (cases b)
      case True
      then show ?thesis using Cons.IH[OF len k] Suc by (simp add: a idx mask_Cons)
    next
      case False
      then show ?thesis using Cons.IH[OF len k] Suc by (simp add: a idx mask_Cons)
    qed
  qed
qed

lemma length_flag_and: "length a = length b \<Longrightarrow> length (flag_and a b) = length a"
  by (simp add: flag_and_def)

lemma match_to_catalog_sky_length:
  "match_to_catalog_sky sep coords cat = Inr (index, dist2d) \<Longrightarrow>
   length index = length coords \<and> length dist2d = length coords
   \<and> index = map (\<lambda>p. fst (nearest sep p cat)) coords"
  by (auto simp: match_to_catalog_sky_def split: if_splits)

lemma match_coords_Inr:
  assumes "match_coords env self = Inr self'"
  shows "\<exists>index dist2d.
     match_to_catalog_sky (env_separation env)
        (map (\<lambda>r. (RAJ2000 r, DEJ2000 r)) (self_pan self))
        (map (\<lambda>r. (ALPHA_J2000 r, DELTA_J2000 r)) (rows (self_secat self))) = Inr (index, dist2d)
     \<and> self_pan self' = self_pan self \<and> self_secat self' = self_secat self
     \<and> self_matchflag self' = map (\<lambda>d. d < 5 / 3600) dist2d
     \<and> self_matchedarray1 self' =
          \<lparr>n_aper = n_aper (self_secat self),
           rows = put_mask (replicate (length (self_pan self)) (zero_row (n_aper (self_secat self))))
                    (self_matchflag self')
                    (map (\<lambda>i. rows (self_secat self) ! i) (mask (self_matchflag self') index))\<rparr>
     \<and> length (self_fitflag self') = length (self_pan self)"
proof -
  let ?pc = "map (\<lambda>r. (RAJ2000 r, DEJ2000 r)) (self_pan self)"
  let ?sc = "map (\<lambda>r. (ALPHA_J2000 r, DELTA_J2000 r)) (rows (self_secat self))"
  from assms obtain p where
    m: "match_to_catalog_sky (env_separation env) ?pc ?sc = Inr p"
    unfolding match_coords_def Let_def raising_Inr by blast
  obtain index dist2d where p: "p = (index, dist2d)" by (cases p)
  from match_to_catalog_sky_length[OF m[unfolded p]]
  have li: "length index = length (self_pan self)" and ld: "length dist2d = length (self_pan self)"
    by simp_all
  let ?mf = "map (\<lambda>d. d < 5 / 3600) dist2d"
  show ?thesis
    using assms m p li ld
    apply (simp add: match_coords_def Let_def raising_Inr bool_index_def take_idx_def
                     mask_assign_def split: if_splits option.splits)
    apply (auto simp: length_put_mask flag_and_def)
    done
qed


lemma pair_match:
  "match_coords pair_env pair_obj =
     Inr (pair_obj\<lparr>self_matchflag := [True, False],
                   self_matchedarray1 := \<lparr>n_aper = 6, rows = [star 180 0 (-10), zero_row 6]\<rparr>,
                   self_fitflag := [True, False], self_R := [15, 16]\<rparr>)"
  by (simp add: match_coords_def pair_obj_def example_defs stage_defs)

text \<open>
  C7.  When \<^verbatim>\<open>match_coords\<close> returns, \<^verbatim>\<open>matchflag\<close>, \<^verbatim>\<open>fitflag\<close> and \<^verbatim>\<open>matchedarray1\<close>
  have as many entries as the Pan-STARRS table \<^verbatim>\<open>self.pan\<close> has rows, and every entry
  of \<^verbatim>\<open>matchedarray1\<close> at a position where \<^verbatim>\<open>matchflag\<close> is False is the all-zero
  record of the catalogue's dtype.
\<close>

theorem match_coords_alignment:
  assumes "match_coords env self = Inr self'"
  shows "length (self_matchflag self') = length (self_pan self')
       \<and> length (self_fitflag self') = length (self_pan self')
       \<and> length (rows (self_matchedarray1 self')) = length (self_pan self')
       \<and> (\<forall>i < length (self_pan self'). \<not> self_matchflag self' ! i \<longrightarrow>
             rows (self_matchedarray1 self') ! i = zero_row (n_aper (self_secat self')))"
proof -
  from match_coords_Inr[OF assms] obtain index dist2d where
    m: "match_to_catalog_sky (env_separation env)
          (map (\<lambda>r. (RAJ2000 r, DEJ2000 r)) (self_pan self))
          (map (\<lambda>r. (ALPHA_J2000 r, DELTA_J2000 r)) (rows (self_secat self)))
        = Inr (index, dist2d)"
    and pan: "self_pan self' = self_pan self" and sec: "self_secat self' = self_secat self"
    and mf: "self_matchflag self' = map (\<lambda>d. d < 5 / 3600) dist2d"
    and ma: "self_matchedarray1 self' =
          \<lparr>n_aper = n_aper (self_secat self),
           rows = put_mask (replicate (length (self_pan self)) (zero_row (n_aper (self_secat self))))
                    (self_matchflag self')
                    (map (\<lambda>i. rows (self_secat self) ! i) (mask (self_matchflag self') index))\<rparr>"
    and ff: "length (self_fitflag self') = length (self_pan self)"
    by blast
  from match_to_catalog_sky_length[OF m]
  have li: "length index = length (self_pan self)" and ld: "length dist2d = length (self_pan self)"
    by simp_all
  have lmf: "length (self_matchflag self') = length (self_pan self)"
    using mf ld by simp
  have zero: "rows (self_matchedarray1 self') ! i = zero_row (n_aper (self_secat self'))"
    if "i < length (self_pan self')" "\<not> self_matchflag self' ! i" for i
  proof -
    have "put_mask (replicate (length (self_pan self)) (zero_row (n_aper (self_secat self))))
            (self_matchflag self')
            (map (\<lambda>i. rows (self_secat self) ! i) (mask (self_matchflag self') index)) ! i
          = replicate (length (self_pan self)) (zero_row (n_aper (self_secat self))) ! i"
      using put_mask_nth[of "replicate (length (self_pan self)) (zero_row (n_aper (self_secat self)))"
              "self_matchflag self'" index i "\<lambda>i. rows (self_secat self) ! i"]
            that lmf li pan by simp
    then show ?thesis using ma that pan sec by simp
  qed
  show ?thesis
    using lmf ff pan zero by (simp add: ma length_put_mask)
qed

theorem match_coords_alignment_witness:
  "match_coords pair_env pair_obj =
     Inr (pair_obj\<lparr>self_matchflag := [True, False],
                   self_matchedarray1 := \<lparr>n_aper = 6, rows = [star 180 0 (-10), zero_row 6]\<rparr>,
                   self_fitflag := [True, False], self_R := [15, 16]\<rparr>)
   \<and> length (self_pan pair_obj) = 2
   \<and> [star 180 0 (-10), zero_row 6] ! 1 = zero_row (n_aper (self_secat pair_obj))"
  using match_coords_alignment[OF pair_match] pair_match
  by (simp add: pair_obj_def)


subsection \<open>C4: \<^verbatim>\<open>update_header\<close> changes the header only\<close>

lemma filter_update_other:
  "k \<in> S \<Longrightarrow> filter (\<lambda>c. fst c \<notin> S) (AList.update k v al) = filter (\<lambda>c. fst c \<notin> S) al"
  by (induction al) (auto simp: AList.update.simps)

lemma header_set_keeps:
  "k \<in> S \<Longrightarrow> filter (\<lambda>c. fst c \<notin> S) (header_set h k v) = filter (\<lambda>c. fst c \<notin> S) h"
  by (simp add: header_set_def filter_update_other)

lemma header_set_lookup:
  "map_of (header_set h k v) k' = (if k' = k then Some v else map_of h k')"
  by (simp add: header_set_def update_conv')

lemma round_half_even_close: "\<bar>of_int (round_half_even r) - r\<bar> \<le> 1 / 2"
  unfolding round_half_even_def Let_def by (auto simp: abs_if) linarith+

lemma fmt3_close: "\<bar>fmt3 v - v\<bar> \<le> 1 / 2000"
proof -
  have "\<bar>of_int (round_half_even (v * 1000)) - v * 1000\<bar> \<le> 1 / 2"
    by (rule round_half_even_close)
  then show ?thesis unfolding fmt3_def by (simp add: abs_if field_simps split: if_splits)
qed

lemma fmt3_example: "fmt3 (- 1 * (- 25.0004) ) = 25"
  by (simp add: fmt3_def round_half_even_def Let_def)

lemma example_update_header:
  "update_header example_files fitted_obj =
     Inr (example_files(''test.coadd.fits'' \<mapsto>
            \<lparr>fits_data = [[1, 2], [3, 4]],
             fits_header = [(''EXPTIME'', HNum 100), (''FILTER'', HStr ''r''),
                            (''PHOTZP'', HNum 25), (''PHOTSYS'', HStr ''AB''),
                            (''FLUXZPJY'', HNum 3631)]\<rparr>))"
  by (simp add: update_header_def fitted_obj_def example_files_def new_obj_def getzp_init_def
        header_set_def fmt3_def round_half_even_def Let_def)

text \<open>
  C4.  When \<^verbatim>\<open>update_header\<close> returns, the image file holds the pixel data it held
  before; its header has the card \<^verbatim>\<open>PHOTZP\<close> with the negated intercept \<^verbatim>\<open>-bestc[1]\<close>
  (plus 0.21 when the filter is \<^verbatim>\<open>R\<close>) rounded to three decimals (\<open>fmt3\<close>, which is
  within 0.0005 of its argument by \<open>fmt3_close\<close>); the cards with any other keyword
  than the ones it sets (\<^verbatim>\<open>PHOTZP\<close>, \<^verbatim>\<open>PHOTSYS\<close>, \<^verbatim>\<open>FLUXZPJY\<close>, and \<^verbatim>\<open>LAMB(um)\<close> for
  the filter \<^verbatim>\<open>R\<close>) are the same, in the same order; and no other file changes.
\<close>

theorem update_header_frame:
  assumes "update_header fs self = Inr fs'"
  shows "\<exists>f f'. fs (self_image self) = Some f \<and> fs' (self_image self) = Some f'
     \<and> fits_data f' = fits_data f
     \<and> map_of (fits_header f') ''PHOTZP'' =
         Some (HNum (fmt3 (- (self_bestc self ! 1)
                           + (if self_filter self = ''R'' then 0.21 else 0))))
     \<and> (let S = {''PHOTZP'', ''PHOTSYS'', ''FLUXZPJY''}
                 \<union> (if self_filter self = ''R'' then {''LAMB(um)''} else {})
        in filter (\<lambda>c. fst c \<notin> S) (fits_header f') = filter (\<lambda>c. fst c \<notin> S) (fits_header f)
           \<and> (\<forall>k. k \<notin> S \<longrightarrow> map_of (fits_header f') k = map_of (fits_header f) k))
     \<and> (\<forall>name. name \<noteq> self_image self \<longrightarrow> fs' name = fs name)"
proof -
  from assms obtain f where f: "fs (self_image self) = Some f"
    by (auto simp: update_header_def split: option.splits)
  from assms f have len: "\<not> length (self_bestc self) < 2"
    by (auto simp: update_header_def Let_def split: if_splits)
  define S where "S = {''PHOTZP'', ''PHOTSYS'', ''FLUXZPJY''}
                 \<union> (if self_filter self = ''R'' then {''LAMB(um)''} else {})"
  define h3 where "h3 =
     header_set (header_set
       (if self_filter self = ''R''
        then header_set (header_set (fits_header f) ''PHOTZP''
                 (HNum (fmt3 (- 1 * (self_bestc self ! 1) + 0.21)))) ''LAMB(um)'' (HNum 0.6442)
        else header_set (fits_header f) ''PHOTZP'' (HNum (fmt3 (- 1 * (self_bestc self ! 1)))))
       ''PHOTSYS'' (HStr ''AB'')) ''FLUXZPJY'' (HNum 3631)"
  have fs': "fs' = fs(self_image self \<mapsto> \<lparr>fits_data = fits_data f, fits_header = h3\<rparr>)"
    using assms f len by (simp add: update_header_def Let_def h3_def)
  have mem: "''PHOTZP'' \<in> S" "''PHOTSYS'' \<in> S" "''FLUXZPJY'' \<in> S"
    "self_filter self = ''R'' \<Longrightarrow> ''LAMB(um)'' \<in> S"
    by (simp_all add: S_def)
  have keep: "filter (\<lambda>c. fst c \<notin> S) h3 = filter (\<lambda>c. fst c \<notin> S) (fits_header f)"
  proof (cases "self_filter self = ''R''")
    case True
    then show ?thesis
      unfolding h3_def using mem by (simp add: header_set_keeps)
  next
    case False
    then show ?thesis
      unfolding h3_def using mem(1-3) by (simp add: header_set_keeps)
  qed
  have look: "map_of h3 k = map_of (fits_header f) k" if "k \<notin> S" for k
  proof -
    from that mem have ne: "k \<noteq> ''PHOTZP''" "k \<noteq> ''PHOTSYS''" "k \<noteq> ''FLUXZPJY''"
      "self_filter self = ''R'' \<Longrightarrow> k \<noteq> ''LAMB(um)''"
      by blast+
    show ?thesis
    proof (cases "self_filter self = ''R''")
      case True
      with ne show ?thesis unfolding h3_def by (simp only: header_set_lookup simp_thms if_True if_False)
    next
      case False
      with ne show ?thesis unfolding h3_def by (simp only: header_set_lookup simp_thms if_True if_False)
    qed
  qed
  have zp: "map_of h3 ''PHOTZP'' =
         Some (HNum (fmt3 (- (self_bestc self ! 1)
                           + (if self_filter self = ''R'' then 0.21 else 0))))"
    unfolding h3_def by (simp add: header_set_lookup)
  let ?f' = "\<lparr>fits_data = fits_data f, fits_header = h3\<rparr>"
  have a: "fs' (self_image self) = Some ?f'" using fs' by simp
  have b: "fits_data ?f' = fits_data f" by simp
  have c: "fits_header ?f' = h3" by simp
  have d: "\<forall>name. name \<noteq> self_image self \<longrightarrow> fs' name = fs name" using fs' by simp
  have e: "let S = {''PHOTZP'', ''PHOTSYS'', ''FLUXZPJY''}
                 \<union> (if self_filter self = ''R'' then {''LAMB(um)''} else {})
        in filter (\<lambda>c. fst c \<notin> S) (fits_header ?f') = filter (\<lambda>c. fst c \<notin> S) (fits_header f)
           \<and> (\<forall>k. k \<notin> S \<longrightarrow> map_of (fits_header ?f') k = map_of (fits_header f) k)"
    unfolding Let_def S_def[symmetric] c using keep look by blast
  show ?thesis
    apply (rule exI[of _ f], rule exI[of _ ?f'])
    apply (intro conjI)
         apply (rule f)
        apply (rule a)
       apply (rule b)
      apply (simp only: c zp)
     apply (rule e)
    apply (rule d)
    done
qed


theorem update_header_frame_witness:
  "update_header example_files fitted_obj =
     Inr (example_files(''test.coadd.fits'' \<mapsto>
            \<lparr>fits_data = [[1, 2], [3, 4]],
             fits_header = [(''EXPTIME'', HNum 100), (''FILTER'', HStr ''r''),
                            (''PHOTZP'', HNum 25), (''PHOTSYS'', HStr ''AB''),
                            (''FLUXZPJY'', HNum 3631)]\<rparr>))
   \<and> fmt3 (- (self_bestc fitted_obj ! 1) + 0) = 25
   \<and> self_image fitted_obj = ''test.coadd.fits''"
  using update_header_frame[OF example_update_header] example_update_header
  by (simp add: fitted_obj_def new_obj_def getzp_init_def example_files_def)


subsection \<open>The loop, pass by pass, and the two example runs\<close>

lemma fitzp_loop_stop:
  "\<not> v_delta v > 1 / 1000 \<Longrightarrow> fitzp_loop curve_fit self v = (0, Inr (self, v))"
  by (simp add: fitzp_loop.simps[of curve_fit self v])

lemma fitzp_loop_error:
  "v_delta v > 1 / 1000 \<Longrightarrow> fitzp_body curve_fit self v = Inl e \<Longrightarrow>
   fitzp_loop curve_fit self v = (1, Inl e)"
  by (simp add: fitzp_loop.simps[of curve_fit self v])

lemma fitzp_loop_pass:
  "v_delta v > 1 / 1000 \<Longrightarrow> fitzp_body curve_fit self v = Inr (self', v') \<Longrightarrow>
   fitzp_loop curve_fit self v
     = (Suc (fst (fitzp_loop curve_fit self' v')), snd (fitzp_loop curve_fit self' v'))"
  by (simp add: fitzp_loop.simps[of curve_fit self v] case_prod_beta)

lemma loop_reaches_same_outcome:
  "loop_reaches curve_fit s0 s \<Longrightarrow>
   snd (fitzp_loop curve_fit (fst s0) (snd s0)) = snd (fitzp_loop curve_fit (fst s) (snd s))"
proof (induction rule: loop_reaches.induct)
  case at_start
  show ?case by simp
next
  case (next_pass self v self' v')
  then show ?case by (simp add: fitzp_loop_pass)
qed

lemma fitzp_body_few:
  assumes "curve_fit zpfunc (v_x v) (v_y v) (v_yerr v) = Some t"
    and "length (v_x v) = length (v_y v)" and "2 \<le> length (self_bestc self)"
    and "sum_flag (clip_flag (self_nsigma self) (body_residual (fst t) v)) < 2"
  shows "fitzp_body curve_fit self v =
           Inl (SystemExit, self\<lparr>self_bestc := [1, fst t], self_x := v_x v, self_y := v_y v,
                                   self_residual := body_residual (fst t) v\<rparr>)"
  using assms
  by (simp add: fitzp_body_def Let_def arr_sub_def body_residual_def)

lemma fitzp_loop_slope:
  "snd (fitzp_loop curve_fit self v) = Inr (self', v') \<Longrightarrow>
   v_delta v > 1 / 1000 \<or> (\<exists>zp cov. self_bestc self = [1, zp] \<and> v_t v = Some (zp, cov)) \<Longrightarrow>
   \<exists>zp cov. self_bestc self' = [1, zp] \<and> v_t v' = Some (zp, cov)"
proof (induction curve_fit self v rule: fitzp_loop.induct)
  case (1 curve_fit self v)
  show ?case
  proof (cases "v_delta v > 1 / 1000")
    case False
    with "1.prems" show ?thesis by (simp add: fitzp_loop_stop)
  next
    case True
    show ?thesis
    proof (cases "fitzp_body curve_fit self v")
      case (Inl e)
      with True "1.prems" show ?thesis by (simp add: fitzp_loop_error)
    next
      case (Inr p)
      obtain s1 v1 where p: "p = (s1, v1)" by (cases p)
      from fitzp_body_Inr[OF Inr[unfolded p]] obtain t where
        "self_bestc s1 = [1, fst t]" "v_t v1 = Some (fst t, snd t)"
        by auto
      then have inv: "\<exists>zp cov. self_bestc s1 = [1, zp] \<and> v_t v1 = Some (zp, cov)" by blast
      have "snd (fitzp_loop curve_fit s1 v1) = Inr (self', v')"
        using "1.prems"(1) fitzp_loop_pass[OF True Inr[unfolded p]] by simp
      from "1.IH"[OF True Inr[unfolded p] refl this] inv show ?thesis by blast
    qed
  qed
qed

lemma fitzp_start_Inr:
  "fitzp_start polyfit self = Inr (self1, v0) \<Longrightarrow>
   v_delta v0 = 100 \<and> self1 = self\<lparr>self_bestc := [0, 0]\<rparr>"
  by (auto simp: fitzp_start_def Let_def raising_Inr split: prod.splits)

lemma fitzp_finish_Inr:
  "fitzp_finish self2 v = Inr s \<Longrightarrow>
   \<exists>t. v_t v = Some t \<and> 2 \<le> length (self_bestc self2) \<and>
       s = self2\<lparr>self_x := v_x v, self_y := v_y v, self_yerr := v_yerr v,
                 self_zpcovar := snd t, self_zperr := sqrt (snd t),
                 self_zp := self_bestc self2 ! 1\<rparr>"
  by (auto simp: fitzp_finish_def Let_def raising_Inr split: option.splits if_splits)


lemma fitzp_body_exit:
  assumes "fitzp_body curve_fit self v = Inl (SystemExit, self')"
  shows "\<exists>t. curve_fit zpfunc (v_x v) (v_y v) (v_yerr v) = Some t
             \<and> self_bestc self' = [1, fst t]"
proof (cases "curve_fit zpfunc (v_x v) (v_y v) (v_yerr v)")
  case None
  with assms show ?thesis by (simp add: fitzp_body_def)
next
  case (Some t)
  with assms have "self_bestc self' = [1, fst t]"
    by (auto simp: fitzp_body_def Let_def arr_sub_def bool_index_def split: if_splits)
  with Some show ?thesis by simp
qed

lemmas fit_defs = fitzp_start_def fitzp_finish_def select_mag_def aper_sel_def aper_col_def
  arr_sub_def polyval_def

lemma six_start: "fitzp_start example_polyfit six_matched = Inr (example_obj, example_vars)"
  by (simp add: example_defs stage_defs fit_defs)

lemma steady_start:
  "fitzp_start example_polyfit steady_matched
     = Inr (steady_matched\<lparr>self_bestc := [0, 0]\<rparr>, steady_vars)"
  by (simp add: example_defs stage_defs fit_defs steady_vars_def)


lemma example_reaches2:
  "loop_reaches example_fit (example_obj, example_vars) (example_obj2, example_vars2)"
proof (rule loop_reaches.next_pass[OF loop_reaches.at_start])
  show "1 / 1000 < v_delta example_vars" by (simp add: example_vars_def)
  show "fitzp_body example_fit example_obj example_vars = Inr (example_obj2, example_vars2)"
    using example_body_pass1 by (simp add: example_obj2_def example_vars2_def)
qed

lemma example_fit_pass2:
  "example_fit zpfunc (v_x example_vars2) (v_y example_vars2) (v_yerr example_vars2)
     = Some (- (49 / 2), 1 / 4)"
  by (simp add: example_fit_def zpfunc_def example_vars2_def)

lemma example_residual_pass2:
  "body_residual (- (49 / 2)) example_vars2 = [1 / 2, 1 / 2, 1 / 2, - (3 / 2)]"
  by (simp add: body_residual_def example_vars2_def polyval_def)

lemma example_flag_pass2:
  "clip_flag 2 [1 / 2, 1 / 2, 1 / 2, - (3 / 2)] = [False, False, False, False]"
  by (simp add: clip_flag_def median_def)

lemma example_nsigma: "self_nsigma example_obj2 = 2" "self_bestc example_obj2 = [1, -15]"
  by (simp_all add: example_obj2_def example_defs)

lemma steady_fit:
  "example_fit zpfunc [15, 15, 15, 15] [-9, -11, -8, -12] [1, 1, 1, 1] = Some (-25, 1 / 4)"
  by (simp add: example_fit_def zpfunc_def)

lemma steady_flag: "clip_flag 2 [-1, 1, -2, 2] = [True, True, True, True]"
  by (simp add: clip_flag_def median_def)

lemma steady_pass1:
  "fitzp_body example_fit (steady_matched\<lparr>self_bestc := [0, 0]\<rparr>) steady_vars
     = Inr (steady_obj1, steady_vars1 25)"
  by (simp add: fitzp_body_def steady_vars_def steady_fit polyval_def arr_sub_def
        steady_matched_def after_match_def new_obj_def getzp_init_def steady_flag sum_flag_def
        bool_index_def mask_def steady_obj1_def steady_vars1_def)

lemma steady_pass2:
  "fitzp_body example_fit steady_obj1 (steady_vars1 25) = Inr (steady_obj1, steady_vars1 0)"
  by (simp add: fitzp_body_def steady_fit polyval_def arr_sub_def
        steady_matched_def after_match_def new_obj_def getzp_init_def steady_flag sum_flag_def
        bool_index_def mask_def steady_obj1_def steady_vars1_def)

lemma steady_loop:
  "snd (fitzp_loop example_fit (steady_matched\<lparr>self_bestc := [0, 0]\<rparr>) steady_vars)
     = Inr (steady_obj1, steady_vars1 0)"
proof -
  have a: "1 / 1000 < v_delta steady_vars" by (simp add: steady_vars_def)
  have b: "1 / 1000 < v_delta (steady_vars1 25)" by (simp add: steady_vars1_def)
  have c: "\<not> 1 / 1000 < v_delta (steady_vars1 0)" by (simp add: steady_vars1_def)
  show ?thesis
    by (simp add: fitzp_loop_pass[OF a steady_pass1] fitzp_loop_pass[OF b steady_pass2]
          fitzp_loop_stop[OF c])
qed

lemma steady_finish: "fitzp_finish steady_obj1 (steady_vars1 0) = Inr steady_fitted"
  by (simp add: steady_obj1_def steady_vars1_def steady_fitted_def example_defs stage_defs
        fit_defs)

lemma steady_fitzp: "fitzp example_fit example_polyfit steady_matched = Inr steady_fitted"
  by (simp add: fitzp_def steady_start steady_loop steady_finish)

subsection \<open>C9: fewer than two points left\<close>

text \<open>
  C9.  \<^verbatim>\<open>fitzp\<close> has come to the loop, and the loop has come to some pass.  If in that
  pass the fit returns and the clipping flag of its residuals has fewer than two true
  entries, then \<^verbatim>\<open>fitzp\<close> ends with SystemExit and returns no fitted object; the object
  at that moment has \<^verbatim>\<open>self.x\<close>, \<^verbatim>\<open>self.y\<close> and \<^verbatim>\<open>self.residual\<close> set to the \<open>x\<close>, \<open>y\<close> and
  residual of this pass (and \<^verbatim>\<open>self.bestc\<close> to its fit).
\<close>

theorem fitzp_exits_on_few_points:
  assumes "fitzp_start polyfit self0 = Inr (self1, v0)"
    and "loop_reaches curve_fit (self1, v0) (self, v)"
    and "v_delta v > 1 / 1000"
    and "curve_fit zpfunc (v_x v) (v_y v) (v_yerr v) = Some t"
    and "length (v_x v) = length (v_y v)" and "2 \<le> length (self_bestc self)"
    and "sum_flag (clip_flag (self_nsigma self) (body_residual (fst t) v)) < 2"
  shows "fitzp curve_fit polyfit self0 =
           Inl (SystemExit, self\<lparr>self_bestc := [1, fst t], self_x := v_x v, self_y := v_y v,
                                   self_residual := body_residual (fst t) v\<rparr>)"
proof -
  have "snd (fitzp_loop curve_fit self1 v0) = snd (fitzp_loop curve_fit self v)"
    using loop_reaches_same_outcome[OF assms(2)] by simp
  also have "\<dots> = Inl (SystemExit, self\<lparr>self_bestc := [1, fst t], self_x := v_x v,
                     self_y := v_y v, self_residual := body_residual (fst t) v\<rparr>)"
    using fitzp_loop_error[OF assms(3) fitzp_body_few[of curve_fit v t self, OF assms(4-7)]] by simp
  finally show ?thesis
    using assms(1) by (simp add: fitzp_def)
qed

theorem fitzp_exits_on_few_points_witness:
  "fitzp example_fit example_polyfit six_matched =
     Inl (SystemExit,
          example_obj2\<lparr>self_bestc := [1, - (49 / 2)], self_x := [15, 15, 15, 15],
                        self_y := [-10, -10, -10, -8],
                        self_residual := [1 / 2, 1 / 2, 1 / 2, - (3 / 2)]\<rparr>)
   \<and> sum_flag (clip_flag 2 [1 / 2, 1 / 2, 1 / 2, - (3 / 2)]) = 0"
proof -
  have few: "sum_flag (clip_flag (self_nsigma example_obj2)
                        (body_residual (fst (- (49 / 2) :: real, 1 / 4 :: real)) example_vars2)) < 2"
    by (simp add: example_nsigma example_residual_pass2 example_flag_pass2 sum_flag_def)
  have "fitzp example_fit example_polyfit six_matched =
     Inl (SystemExit,
          example_obj2\<lparr>self_bestc := [1, fst (- (49 / 2) :: real, 1 / 4 :: real)],
                        self_x := v_x example_vars2, self_y := v_y example_vars2,
                        self_residual :=
                          body_residual (fst (- (49 / 2) :: real, 1 / 4 :: real)) example_vars2\<rparr>)"
    by (rule fitzp_exits_on_few_points[OF six_start example_reaches2 _ example_fit_pass2 _ _ few])
       (simp_all add: example_vars2_def example_nsigma)
  moreover have "v_x example_vars2 = [15, 15, 15, 15]" "v_y example_vars2 = [-10, -10, -10, -8]"
    by (simp_all add: example_vars2_def)
  ultimately show ?thesis
    by (simp add: example_residual_pass2 example_flag_pass2 sum_flag_def)
qed


subsection \<open>C6: the slope is fixed at one\<close>

text \<open>
  C6.  After every pass of the loop that reaches the clipping test (it goes on, or it
  exits there), \<^verbatim>\<open>self.bestc\<close> is \<open>[1, zp]\<close> with \<open>zp\<close> the parameter that \<^verbatim>\<open>curve_fit\<close>
  returned for the model \<open>zpfunc x zp = x + zp\<close>; and when \<^verbatim>\<open>fitzp\<close> returns, \<^verbatim>\<open>self.bestc\<close>
  is \<open>[1, zp]\<close>, the stored \<^verbatim>\<open>self.zp\<close> is that intercept, and the fitted line is
  \<open>x + zp\<close>.
\<close>

theorem fitzp_slope_fixed:
  "(fitzp_body curve_fit self v = Inr (self', v')
      \<or> fitzp_body curve_fit self v = Inl (SystemExit, self')
    \<longrightarrow> (\<exists>zp cov. curve_fit zpfunc (v_x v) (v_y v) (v_yerr v) = Some (zp, cov)
                 \<and> self_bestc self' = [1, zp]))
   \<and> (fitzp curve_fit polyfit obj = Inr obj'
    \<longrightarrow> (\<exists>zp. self_bestc obj' = [1, zp] \<and> self_zp obj' = zp
              \<and> (\<forall>xi. polyval (self_bestc obj') xi = xi + zp)))"
proof (intro conjI impI)
  assume "fitzp_body curve_fit self v = Inr (self', v')
      \<or> fitzp_body curve_fit self v = Inl (SystemExit, self')"
  then obtain t where "curve_fit zpfunc (v_x v) (v_y v) (v_yerr v) = Some t"
    "self_bestc self' = [1, fst t]"
    using fitzp_body_Inr[of curve_fit self v self' v'] fitzp_body_exit[of curve_fit self v self']
    by auto
  then show "\<exists>zp cov. curve_fit zpfunc (v_x v) (v_y v) (v_yerr v) = Some (zp, cov)
                 \<and> self_bestc self' = [1, zp]"
    by (metis prod.collapse)
next
  assume ok: "fitzp curve_fit polyfit obj = Inr obj'"
  then obtain self1 v0 where st: "fitzp_start polyfit obj = Inr (self1, v0)"
    by (auto simp: fitzp_def split: sum.splits)
  with ok obtain self2 v where lp: "snd (fitzp_loop curve_fit self1 v0) = Inr (self2, v)"
    and fin: "fitzp_finish self2 v = Inr obj'"
    by (auto simp: fitzp_def split: sum.splits)
  from fitzp_start_Inr[OF st] have "v_delta v0 > 1 / 1000" by simp
  with fitzp_loop_slope[OF lp] obtain zp where zp: "self_bestc self2 = [1, zp]"
    by blast
  from fitzp_finish_Inr[OF fin] zp have "self_bestc obj' = [1, zp]" "self_zp obj' = zp"
    by auto
  then show "\<exists>zp. self_bestc obj' = [1, zp] \<and> self_zp obj' = zp
              \<and> (\<forall>xi. polyval (self_bestc obj') xi = xi + zp)"
    by (simp add: polyval_def)
qed

theorem fitzp_slope_fixed_witness:
  "fitzp example_fit example_polyfit steady_matched = Inr steady_fitted
   \<and> fitzp_body example_fit example_obj example_vars = Inr (example_obj2, example_vars2)
   \<and> self_bestc steady_fitted = [1, -25] \<and> self_zp steady_fitted = -25
   \<and> self_bestc example_obj2 = [1, -15]"
  using fitzp_slope_fixed[of example_fit example_obj example_vars example_obj2 example_vars2
          example_polyfit steady_matched steady_fitted]
    steady_fitzp example_body_pass1
  by (simp add: steady_fitted_def example_obj2_def example_vars2_def)


subsection \<open>C3: the stages of \<^verbatim>\<open>getzp\<close>\<close>

lemmas run_defs = runse_def get_panstarrs_def py_min_def py_max_def median_def pixelscale_def

lemma lone_runse:
  "runse lone_env example_files new_obj =
     Inr (new_obj\<lparr>self_secat := \<lparr>n_aper = 6, rows = [star 180 0 (-10)]\<rparr>,
                  self_centerRA := 180, self_centerDEC := 0, self_radius := 0\<rparr>)"
  by (simp add: run_defs example_defs stage_defs)

lemma lone_panstarrs:
  "get_panstarrs lone_env
     (new_obj\<lparr>self_secat := \<lparr>n_aper = 6, rows = [star 180 0 (-10)]\<rparr>,
              self_centerRA := 180, self_centerDEC := 0, self_radius := 0\<rparr>) =
     Inr (new_obj\<lparr>self_secat := \<lparr>n_aper = 6, rows = [star 180 0 (-10)]\<rparr>,
                  self_centerRA := 180, self_centerDEC := 0, self_radius := 0,
                  self_pan := [ref_star 180 0 15]\<rparr>)"
  by (simp add: run_defs example_defs stage_defs)

lemma lone_match:
  "match_coords lone_env
     (new_obj\<lparr>self_secat := \<lparr>n_aper = 6, rows = [star 180 0 (-10)]\<rparr>,
              self_centerRA := 180, self_centerDEC := 0, self_radius := 0,
              self_pan := [ref_star 180 0 15]\<rparr>) = Inr lone_matched"
  by (simp add: match_coords_def example_defs stage_defs)

lemma lone_start:
  "fitzp_start example_polyfit lone_matched =
     Inr (lone_matched\<lparr>self_bestc := [0, 0]\<rparr>,
          \<lparr>v_delta = 100, v_x = [15], v_y = [-10], v_yerr = [1], v_t = None\<rparr>)"
  by (simp add: example_defs stage_defs fit_defs)

lemma lone_body:
  "fitzp_body example_fit (lone_matched\<lparr>self_bestc := [0, 0]\<rparr>)
     \<lparr>v_delta = 100, v_x = [15], v_y = [-10], v_yerr = [1], v_t = None\<rparr> =
   Inl (SystemExit, lone_matched\<lparr>self_bestc := [1, -25], self_x := [15], self_y := [-10],
                                  self_residual := [0]\<rparr>)"
  by (simp add: fitzp_body_def example_fit_def zpfunc_def polyval_def arr_sub_def clip_flag_def
        median_def sum_flag_def example_defs)

lemma lone_fitzp:
  "fitzp example_fit example_polyfit lone_matched =
   Inl (SystemExit, lone_matched\<lparr>self_bestc := [1, -25], self_x := [15], self_y := [-10],
                                  self_residual := [0]\<rparr>)"
  by (simp add: fitzp_def lone_start fitzp_loop_error lone_body)

lemma lone_env_fits: "env_curve_fit lone_env = example_fit" "env_polyfit lone_env = example_polyfit"
  "env_curve_fit steady_env = example_fit" "env_polyfit steady_env = example_polyfit"
  by (simp_all add: lone_env_def steady_env_def example_env_def)

lemma lone_getzp:
  "getzp lone_env example_files new_obj =
     (take 4 status_lines, example_files,
      Inl (SystemExit, lone_matched\<lparr>self_bestc := [1, -25], self_x := [15], self_y := [-10],
                                     self_residual := [0]\<rparr>))"
  by (simp add: getzp_def lone_runse lone_panstarrs lone_match lone_env_fits lone_fitzp)

lemma steady_runse: "runse steady_env example_files new_obj = Inr steady_seen"
  by (simp add: run_defs example_defs stage_defs steady_seen_def)

lemma steady_panstarrs:
  "get_panstarrs steady_env steady_seen = Inr (steady_seen\<lparr>self_pan := steady_refs\<rparr>)"
  by (simp add: run_defs example_defs stage_defs steady_seen_def)

lemma steady_match:
  "match_coords steady_env (steady_seen\<lparr>self_pan := steady_refs\<rparr>) = Inr steady_matched"
  by (simp add: match_coords_def example_defs stage_defs steady_seen_def)

lemma steady_update_header: "update_header example_files steady_fitted = Inr steady_files"
  by (simp add: update_header_def steady_fitted_def steady_files_def example_defs
        header_set_def fmt3_def round_half_even_def Let_def)

lemma steady_getzp:
  "getzp steady_env example_files new_obj = (status_lines, steady_files, Inr steady_fitted)"
  by (simp add: getzp_def steady_runse steady_panstarrs steady_match lone_env_fits steady_fitzp
        steady_update_header)

text \<open>
  C3, as stated: every run of \<^verbatim>\<open>getzp\<close> goes through all five stages, none skipped.
  This fails for a run in which a stage ends the run.  In the one-star world the single
  residual is its own median, the MAD is 0, no point is retained, and \<^verbatim>\<open>fitzp\<close> calls
  \<^verbatim>\<open>sys.exit\<close>: four status lines are printed, \<^verbatim>\<open>update_header\<close> is never started and
  the image file is as it was.
\<close>

theorem getzp_all_stages_counterexample:
  "fst (getzp lone_env example_files new_obj)
     = [''STATUS: running se'', ''STATUS: getting panstarrs'',
        ''STATUS: matching se cat to panstarrs'', ''STATUS: fitting zeropoint'']
   \<and> fst (getzp lone_env example_files new_obj) \<noteq> status_lines
   \<and> (\<exists>obj. snd (snd (getzp lone_env example_files new_obj)) = Inl (SystemExit, obj))
   \<and> fst (snd (getzp lone_env example_files new_obj)) = example_files"
  by (simp add: lone_getzp status_lines_def)


text \<open>
  C3, amended.  In every run \<^verbatim>\<open>getzp\<close> starts the stages \<^verbatim>\<open>runse\<close>, \<^verbatim>\<open>get_panstarrs\<close>,
  \<^verbatim>\<open>match_coords\<close>, \<^verbatim>\<open>fitzp\<close>, \<^verbatim>\<open>update_header\<close> in this order, each at most once and none
  again: the status lines printed are the first \<open>k\<close> of the five, \<open>1 \<le> k \<le> 5\<close>.  The run
  stops at the first stage that raises or exits; when \<open>k < 5\<close> the run has ended in an
  error and the files are untouched.  When the run ends normally all five stages have
  run, each on the object the stage before it returned, and the files are the ones
  \<^verbatim>\<open>update_header\<close> wrote.
\<close>

theorem getzp_stages_in_order:
  "\<exists>k. 1 \<le> k \<and> k \<le> 5 \<and> fst (getzp env fs self) = take k status_lines
       \<and> (k < 5 \<longrightarrow> (\<exists>e. snd (snd (getzp env fs self)) = Inl e)
                      \<and> fst (snd (getzp env fs self)) = fs)
       \<and> (\<forall>obj. snd (snd (getzp env fs self)) = Inr obj \<longrightarrow>
             k = 5 \<and>
             (\<exists>s1 s2 s3. runse env fs self = Inr s1 \<and> get_panstarrs env s1 = Inr s2
                \<and> match_coords env s2 = Inr s3
                \<and> fitzp (env_curve_fit env) (env_polyfit env) s3 = Inr obj
                \<and> update_header fs obj = Inr (fst (snd (getzp env fs self)))))"
proof (cases "runse env fs self")
  case (Inl e)
  then have "getzp env fs self = (take 1 status_lines, fs, Inl e)"
    by (simp add: getzp_def)
  then show ?thesis by (intro exI[of _ 1]) simp
next
  case s1: (Inr s1)
  show ?thesis
  proof (cases "get_panstarrs env s1")
    case (Inl e)
    with s1 have "getzp env fs self = (take 2 status_lines, fs, Inl e)"
      by (simp add: getzp_def)
    then show ?thesis by (intro exI[of _ 2]) simp
  next
    case s2: (Inr s2)
    show ?thesis
    proof (cases "match_coords env s2")
      case (Inl e)
      with s1 s2 have "getzp env fs self = (take 3 status_lines, fs, Inl e)"
        by (simp add: getzp_def)
      then show ?thesis by (intro exI[of _ 3]) simp
    next
      case s3: (Inr s3)
      show ?thesis
      proof (cases "fitzp (env_curve_fit env) (env_polyfit env) s3")
        case (Inl e)
        with s1 s2 s3 have "getzp env fs self = (take 4 status_lines, fs, Inl e)"
          by (simp add: getzp_def)
        then show ?thesis by (intro exI[of _ 4]) simp
      next
        case s4: (Inr s4)
        have five: "take 5 status_lines = status_lines" by (simp add: status_lines_def)
        show ?thesis
        proof (cases "update_header fs s4")
          case (Inl p)
          obtain e fs' where "p = (e, fs')" by (cases p)
          with Inl s1 s2 s3 s4 have "getzp env fs self = (status_lines, fs', Inl (e, s4))"
            by (simp add: getzp_def)
          then show ?thesis using five by (intro exI[of _ 5]) simp
        next
          case (Inr fs')
          with s1 s2 s3 s4 have "getzp env fs self = (status_lines, fs', Inr s4)"
            by (simp add: getzp_def)
          then show ?thesis using five s1 s2 s3 s4 Inr by (intro exI[of _ 5]) simp
        qed
      qed
    qed
  qed
qed

theorem getzp_stages_in_order_witness:
  "getzp steady_env example_files new_obj = (status_lines, steady_files, Inr steady_fitted)
   \<and> getzp lone_env example_files new_obj =
     (take 4 status_lines, example_files,
      Inl (SystemExit, lone_matched\<lparr>self_bestc := [1, -25], self_x := [15], self_y := [-10],
                                     self_residual := [0]\<rparr>))
   \<and> update_header example_files steady_fitted = Inr steady_files"
  using getzp_stages_in_order[of steady_env example_files new_obj]
        getzp_stages_in_order[of lone_env example_files new_obj]
        steady_getzp lone_getzp
  by auto


subsection \<open>Helper lemmas on strings\<close>

lemma find_from_ge: "find_from s sub i = -1 \<or> i \<le> find_from s sub i"
  by (induction s arbitrary: i) (auto, force)

lemma find_from_sublist:
  "(find_from s sub i = -1 \<and> i \<ge> 0) \<longleftrightarrow> (\<not> sublist sub s \<and> i \<ge> 0)"
proof (induction s arbitrary: i)
  case Nil
  then show ?case by auto
next
  case (Cons c s)
  have pre: "take (length sub) (c # s) = sub \<longleftrightarrow> prefix sub (c # s)"
    by (metis prefix_def append_take_drop_id append_eq_conv_conj)
  show ?case
  proof (cases "prefix sub (c # s)")
    case True
    then show ?thesis using pre by (auto simp: sublist_Cons_right)
  next
    case False
    then have "find_from (c # s) sub i = find_from s sub (i + 1)"
      using pre by simp
    moreover have "sublist sub (c # s) \<longleftrightarrow> sublist sub s"
      using False by (simp add: sublist_Cons_right)
    ultimately show ?thesis
      using Cons.IH[of "i + 1"] find_from_ge[of s sub "i + 1"] by auto
  qed
qed

lemma find_py_sublist: "find_py s sub > -1 \<longleftrightarrow> sublist sub s"
  using find_from_sublist[of s sub 0] find_from_ge[of s sub 0]
  by (auto simp: find_py_def)

subsection \<open>C10: the constructor needs a marker in the file name\<close>

text \<open>
  C10.  When the R-band file name contains none of the substrings \<^verbatim>\<open>_R\<close>, \<^verbatim>\<open>-R\<close>
  and \<^verbatim>\<open>-r\<close>, \<^verbatim>\<open>cutouts.__init__\<close> raises: UnboundLocalError for the unassigned
  \<^verbatim>\<open>split_string\<close> (or whatever the WCS constructor raised before that), so no object
  is constructed from such a name.
\<close>

theorem cutouts_init_needs_marker:
  assumes "\<not> sublist ''_R'' rimage" and "\<not> sublist ''-R'' rimage"
    and "\<not> sublist ''-r'' rimage"
  shows "cutouts_init WCS rimage =
           Inl (if WCS rimage = None then ExternalError else UnboundLocalError)
         \<and> (\<forall>obj. cutouts_init WCS rimage \<noteq> Inr obj)"
proof -
  have "split_string_of rimage = None"
    using assms find_py_sublist[of rimage] by (simp add: split_string_of_def)
  then show ?thesis
    by (simp add: cutouts_init_def split: option.splits)
qed

theorem cutouts_init_needs_marker_witness:
  "cutouts_init (\<lambda>_. Some ()) ''galaxy.fits'' = Inl UnboundLocalError
   \<and> \<not> sublist ''_R'' ''galaxy.fits'' \<and> \<not> sublist ''-R'' ''galaxy.fits''
   \<and> \<not> sublist ''-r'' ''galaxy.fits''"
  using cutouts_init_needs_marker[of "''galaxy.fits''" "\<lambda>_. Some ()"]
  by (simp add: sublist_Cons_right)

subsection \<open>The world of the cutout tool\<close>

lemma exists_write [simp]: "exists_file (write_file n c w) m \<longleftrightarrow> m = n \<or> exists_file w m"
  by (auto simp: exists_file_def write_file_def update_conv')

lemma exists_log [simp]: "exists_file (log_event s a w) m = exists_file w m"
  by (simp add: exists_file_def log_event_def)

lemma files_log [simp]: "cw_files (log_event s a w) = cw_files w"
  by (simp add: log_event_def)

lemma files_write [simp]: "cw_files (write_file n c w) = AList.update n c (cw_files w)"
  by (simp add: write_file_def)

lemma log_write [simp]: "cw_log (write_file n c w) = cw_log w"
  by (simp add: write_file_def)

lemma log_log [simp]: "cw_log (log_event s a w) = cw_log w @ [(s, a)]"
  by (simp add: log_event_def)

lemma fetches_simps [simp]:
  "fetches (write_file n c w) = fetches w"
  "fetches (log_event s (Fetch u) w) = fetches w @ [(s, Fetch u)]"
  "fetches (log_event s (Read u) w) = fetches w"
  "fetches (log_event s (Save u) w) = fetches w"
  by (simp_all add: fetches_def is_fetch_def)

lemma fetch_unless_exists_cases:
  "fetch_unless_exists env url name w =
     (if exists_file w name then (w, Inr ())
      else if env_urlretrieve env url = None then (log_event Legacy (Fetch url) w, Inl URLError)
      else (write_file name (the (env_urlretrieve env url)) (log_event Legacy (Fetch url) w), Inr ()))"
  by (auto simp: fetch_unless_exists_def split: option.splits)

lemma fetch_unless_exists_ok:
  "fetch_unless_exists env url name w = (w', Inr u) \<Longrightarrow>
   exists_file w' name \<and> (\<forall>m. exists_file w m \<longrightarrow> exists_file w' m)
   \<and> (\<forall>m. m \<noteq> name \<longrightarrow> map_of (cw_files w') m = map_of (cw_files w) m)"
  by (auto simp: fetch_unless_exists_cases update_conv' split: if_splits)

lemma fetch_unless_exists_hit:
  "exists_file w name \<Longrightarrow> fetch_unless_exists env url name w = (w, Inr ())"
  by (simp add: fetch_unless_exists_def)

lemma fetch_unless_exists_error:
  "fetch_unless_exists env url name w = (w', Inl e) \<Longrightarrow> e = URLError"
  by (auto simp: fetch_unless_exists_cases split: if_splits)


lemma bind_w_split:
  "bind_w m f w = (case m w of (w', Inl e) \<Rightarrow> (w', Inl e) | (w', Inr a) \<Rightarrow> f a w')"
  by (simp add: bind_w_def)

lemma get_legacy_images_unfold:
  "get_legacy_images env ra dec galid pixscale imsize0 bands makeplots =
     (let imsize = py_int imsize0;
          names = legacy_names (str_hval (env_str env) galid) imsize bands
      in bind_w (fetch_unless_exists env
                   (legacy_jpeg_url (env_str env ra) (env_str env dec) imsize pixscale) (snd names))
           (\<lambda>_.
         bind_w (fetch_unless_exists env
                   (legacy_fits_url (env_str env ra) (env_str env dec) imsize pixscale bands)
                   (fst names)) (\<lambda>_. legacy_read (fst names) (snd names) makeplots)))"
  by (simp add: get_legacy_images_def Let_def case_prod_beta)

lemma legacy_read_world:
  "fst (legacy_read f j mp w) = log_event Legacy (Read f) w"
  by (auto simp: legacy_read_def getdata_def split: option.splits content.splits sum.splits
      bool.splits prod.splits)

lemma legacy_read_result:
  "map_of (cw_files w') f = map_of (cw_files w) f \<Longrightarrow>
   snd (legacy_read f j mp w') = snd (legacy_read f j mp w)"
  by (simp add: legacy_read_def getdata_def split: option.splits content.splits sum.splits
      bool.splits prod.splits)

lemma legacy_read_not_urlerror: "snd (legacy_read f j mp w) \<noteq> Inl URLError"
  by (auto simp: legacy_read_def getdata_def second_row_mean_zero_def
      split: option.splits content.splits sum.splits bool.splits prod.splits if_splits)

lemma legacy_read_names: "snd (legacy_read f j mp w) = Inr (Some p) \<Longrightarrow> p = (f, j)"
  by (auto simp: legacy_read_def getdata_def
      split: option.splits content.splits sum.splits bool.splits prod.splits if_splits)

lemma legacy_names_distinct: "fst (legacy_names g i b) \<noteq> snd (legacy_names g i b)"
proof -
  have "last (fst (legacy_names g i b)) = CHR ''s''" by (simp add: legacy_names_def Let_def)
  moreover have "last (snd (legacy_names g i b)) = CHR ''g''" by (simp add: legacy_names_def Let_def)
  ultimately show ?thesis by auto
qed


lemma legacy_read_files [simp]: "cw_files (fst (legacy_read f j mp w)) = cw_files w"
  by (simp add: legacy_read_world)

lemma legacy_read_fetches [simp]: "fetches (fst (legacy_read f j mp w)) = fetches w"
  by (simp add: legacy_read_world)

lemma legacy_read_exists [simp]: "exists_file (fst (legacy_read f j mp w)) m = exists_file w m"
  by (simp add: legacy_read_world)

lemma fetch2_read_hit:
  assumes "exists_file w jn" "exists_file w fn"
  shows "bind_w (fetch_unless_exists env ju jn) (\<lambda>_.
           bind_w (fetch_unless_exists env fu fn) (\<lambda>_. legacy_read fn jn mp)) w
         = legacy_read fn jn mp w"
  using assms by (simp add: bind_w_def fetch_unless_exists_hit)

lemma fetch2_read_fetches:
  assumes "fn \<noteq> jn"
  shows "fetches (fst (bind_w (fetch_unless_exists env ju jn) (\<lambda>_.
           bind_w (fetch_unless_exists env fu fn) (\<lambda>_. legacy_read fn jn mp)) w)) =
           fetches w @ (if exists_file w jn then [] else [(Legacy, Fetch ju)])
             @ (if exists_file w fn \<or> (\<not> exists_file w jn \<and> env_urlretrieve env ju = None)
                then [] else [(Legacy, Fetch fu)])"
  using assms
  by (auto simp: bind_w_def fetch_unless_exists_cases)

lemma fetch2_read_second:
  assumes "fn \<noteq> jn"
    and "snd (bind_w (fetch_unless_exists env ju jn) (\<lambda>_.
           bind_w (fetch_unless_exists env fu fn) (\<lambda>_. legacy_read fn jn mp)) w) \<noteq> Inl URLError"
  shows "exists_file (fst (bind_w (fetch_unless_exists env ju jn) (\<lambda>_.
           bind_w (fetch_unless_exists env fu fn) (\<lambda>_. legacy_read fn jn mp)) w)) jn
       \<and> exists_file (fst (bind_w (fetch_unless_exists env ju jn) (\<lambda>_.
           bind_w (fetch_unless_exists env fu fn) (\<lambda>_. legacy_read fn jn mp)) w)) fn
       \<and> snd (legacy_read fn jn mp (fst (bind_w (fetch_unless_exists env ju jn) (\<lambda>_.
           bind_w (fetch_unless_exists env fu fn) (\<lambda>_. legacy_read fn jn mp)) w)))
           = snd (bind_w (fetch_unless_exists env ju jn) (\<lambda>_.
           bind_w (fetch_unless_exists env fu fn) (\<lambda>_. legacy_read fn jn mp)) w)"
  using assms
  by (auto simp: bind_w_def fetch_unless_exists_cases
           intro!: legacy_read_result split: if_splits)

lemma fetch2_read_names:
  "snd (bind_w (fetch_unless_exists env ju jn) (\<lambda>_.
           bind_w (fetch_unless_exists env fu fn) (\<lambda>_. legacy_read fn jn mp)) w) = Inr (Some p)
   \<Longrightarrow> p = (fn, jn)"
  by (auto simp: bind_w_def fetch_unless_exists_cases dest: legacy_read_names split: if_splits)

lemma str_int_60: "str_int 60 = ''60''" "str_int 1 = ''1''" "str_int 21 = ''21''"
  by (simp_all add: str_int_def str_nat.simps)

lemmas world_defs = bind_w_def return_w_def raise_w_def lift_w_def getdata_def log_event_def
  write_file_def remove_file_def exists_file_def

lemma jpeg_url_marker: "find_py (legacy_jpeg_url a b i p) ''jpeg-cutout'' > -1"
  by (simp add: find_py_sublist legacy_jpeg_url_def sublist_append sublist_Cons_right)

lemma fits_url_marker: "\<not> find_py g_fits_url ''jpeg-cutout'' > -1"
  by (simp add: g_fits_url_def legacy_fits_url_def str_int_60 find_py_def)


lemma py_int_60: "py_int 60 = 60"
  by (simp add: py_int_def)

lemma g_first_call:
  "get_legacy_images online_env 180 20 (HStr ''113364'') 1 60 ''g'' False local_world
     = (g_world, Inr (Some (''cutouts/113364-legacy-60-g.fits'', ''cutouts/113364-legacy-60.jpg'')))"
  by (simp add: get_legacy_images_def legacy_read_def legacy_names_def py_int_60 str_int_60
        str_hval_def online_env_def fetch_unless_exists_def world_defs local_world_def
        g_world_def g_jpeg_url_def g_fits_url_def sky_image_def second_row_mean_zero_def
        legacy_jpeg_url_def legacy_fits_url_def find_py_def)


subsection \<open>C5: the cache of \<^verbatim>\<open>get_legacy_images\<close>\<close>

text \<open>
  C5.  \<^verbatim>\<open>get_legacy_images\<close> downloads exactly the files that do not exist: the jpeg
  when \<^verbatim>\<open>jpeg_name\<close> is missing, and then the FITS file when \<^verbatim>\<open>fits_name\<close> is missing
  (unless the first download has raised).  The names it returns are the ones built from
  the galaxy identifier, the size and the bands, whatever the files hold.  After a call
  that did not end in a failed download, a second call with the same arguments
  downloads nothing, leaves the files as they are and returns what the first call
  returned.
\<close>

theorem get_legacy_images_cache:
  "let call = get_legacy_images env ra dec galid pixscale imsize bands makeplots;
       isize = py_int imsize;
       (fits_name, jpeg_name) = legacy_names (str_hval (env_str env) galid) isize bands;
       jpeg_url = legacy_jpeg_url (env_str env ra) (env_str env dec) isize pixscale;
       fits_url = legacy_fits_url (env_str env ra) (env_str env dec) isize pixscale bands;
       w1 = fst (call w)
   in fetches w1 =
        fetches w @ (if exists_file w jpeg_name then [] else [(Legacy, Fetch jpeg_url)])
          @ (if exists_file w fits_name
                \<or> (\<not> exists_file w jpeg_name \<and> env_urlretrieve env jpeg_url = None)
             then [] else [(Legacy, Fetch fits_url)])
      \<and> (\<forall>p. snd (call w) = Inr (Some p) \<longrightarrow> p = (fits_name, jpeg_name))
      \<and> (snd (call w) \<noteq> Inl URLError \<longrightarrow>
            fetches (fst (call w1)) = fetches w1
            \<and> cw_files (fst (call w1)) = cw_files w1
            \<and> snd (call w1) = snd (call w))"
proof -
  define isize where "isize = py_int imsize"
  define fn where "fn = fst (legacy_names (str_hval (env_str env) galid) isize bands)"
  define jn where "jn = snd (legacy_names (str_hval (env_str env) galid) isize bands)"
  define ju where "ju = legacy_jpeg_url (env_str env ra) (env_str env dec) isize pixscale"
  define fu where "fu = legacy_fits_url (env_str env ra) (env_str env dec) isize pixscale bands"
  define call where "call = bind_w (fetch_unless_exists env ju jn) (\<lambda>_.
           bind_w (fetch_unless_exists env fu fn) (\<lambda>_. legacy_read fn jn makeplots))"
  have call: "get_legacy_images env ra dec galid pixscale imsize bands makeplots = call"
    by (simp add: get_legacy_images_unfold Let_def call_def isize_def fn_def jn_def ju_def fu_def)
  have ne: "fn \<noteq> jn" unfolding fn_def jn_def by (rule legacy_names_distinct)
  have a: "fetches (fst (call w)) =
        fetches w @ (if exists_file w jn then [] else [(Legacy, Fetch ju)])
          @ (if exists_file w fn \<or> (\<not> exists_file w jn \<and> env_urlretrieve env ju = None)
             then [] else [(Legacy, Fetch fu)])"
    unfolding call_def by (rule fetch2_read_fetches[OF ne])
  have b: "p = (fn, jn)" if "snd (call w) = Inr (Some p)" for p
    using that unfolding call_def by (rule fetch2_read_names)
  have c: "fetches (fst (call (fst (call w)))) = fetches (fst (call w))
            \<and> cw_files (fst (call (fst (call w)))) = cw_files (fst (call w))
            \<and> snd (call (fst (call w))) = snd (call w)"
    if "snd (call w) \<noteq> Inl URLError"
  proof -
    from fetch2_read_second[OF ne that[unfolded call_def]]
    have ex: "exists_file (fst (call w)) jn" "exists_file (fst (call w)) fn"
      and res: "snd (legacy_read fn jn makeplots (fst (call w))) = snd (call w)"
      unfolding call_def by simp_all
    have "call (fst (call w)) = legacy_read fn jn makeplots (fst (call w))"
      unfolding call_def by (rule fetch2_read_hit[OF ex[unfolded call_def]])
    then show ?thesis using res by simp
  qed
  show ?thesis
    unfolding call Let_def isize_def[symmetric] case_prod_beta fn_def[symmetric] jn_def[symmetric]
      ju_def[symmetric] fu_def[symmetric]
    using a b c by blast
qed


theorem get_legacy_images_cache_witness:
  "get_legacy_images online_env 180 20 (HStr ''113364'') 1 60 ''g'' False local_world
     = (g_world, Inr (Some (''cutouts/113364-legacy-60-g.fits'', ''cutouts/113364-legacy-60.jpg'')))
   \<and> fetches (fst (get_legacy_images online_env 180 20 (HStr ''113364'') 1 60 ''g'' False g_world))
       = fetches g_world
   \<and> cw_files (fst (get_legacy_images online_env 180 20 (HStr ''113364'') 1 60 ''g'' False g_world))
       = cw_files g_world
   \<and> snd (get_legacy_images online_env 180 20 (HStr ''113364'') 1 60 ''g'' False g_world)
       = Inr (Some (''cutouts/113364-legacy-60-g.fits'', ''cutouts/113364-legacy-60.jpg''))"
  using get_legacy_images_cache[of online_env 180 20 "HStr ''113364''" 1 60 "''g''" False
          local_world]
        g_first_call
  by (simp add: Let_def case_prod_beta)

subsection \<open>C8: the stages of \<^verbatim>\<open>runall\<close>\<close>

text \<open>
  Every stage adds events of its own sources only, in order, whether it returns or
  raises; so does a sequence of stages whose sources do not go back.
\<close>

lemma rankedI:
  assumes "\<And>w. \<exists>ev. cw_log (fst (m w)) = cw_log w @ ev \<and> in_order ev
               \<and> (\<forall>e \<in> set ev. lo \<le> service_rank (fst e) \<and> service_rank (fst e) \<le> hi)"
  shows "ranked lo hi m"
  using assms unfolding ranked_def by blast

lemma ranked_silent:
  assumes "\<And>w. cw_log (fst (m w)) = cw_log w"
  shows "ranked lo hi m"
  by (rule rankedI, rule exI[of _ "[]"]) (simp add: assms in_order_def)

lemma ranked_return: "ranked lo hi (return_w a)"
  by (rule ranked_silent) (simp add: return_w_def)


lemma ranked_lift: "ranked lo hi (lift_w m)"
  by (rule ranked_silent) (simp add: lift_w_def)



lemma bind_w_fst_snd:
  "bind_w m f w = (case snd (m w) of Inl e \<Rightarrow> (fst (m w), Inl e) | Inr a \<Rightarrow> f a (fst (m w)))"
  by (cases "m w") (auto simp: bind_w_def split: sum.splits)

lemma in_order_append:
  assumes "in_order a" "in_order b"
    and "\<forall>e \<in> set a. service_rank (fst e) \<le> k" "\<forall>e \<in> set b. k \<le> service_rank (fst e)"
  shows "in_order (a @ b)"
  using assms unfolding in_order_def by (fastforce simp: sorted_append)

lemma ranked_bind:
  assumes m: "ranked lo k m" and f: "\<And>a. ranked k hi (f a)" and "lo \<le> k" "k \<le> hi"
  shows "ranked lo hi (bind_w m f)"
proof (rule rankedI)
  fix w
  from m obtain ev where ev: "cw_log (fst (m w)) = cw_log w @ ev" "in_order ev"
    "\<forall>e \<in> set ev. lo \<le> service_rank (fst e) \<and> service_rank (fst e) \<le> k"
    unfolding ranked_def by blast
  show "\<exists>ev. cw_log (fst (bind_w m f w)) = cw_log w @ ev \<and> in_order ev
               \<and> (\<forall>e \<in> set ev. lo \<le> service_rank (fst e) \<and> service_rank (fst e) \<le> hi)"
  proof (cases "snd (m w)")
    case (Inl e)
    then have "bind_w m f w = (fst (m w), Inl e)"
      by (simp add: bind_w_fst_snd)
    with ev assms(4) show ?thesis by (intro exI[of _ ev]) fastforce
  next
    case (Inr a)
    then have b: "bind_w m f w = f a (fst (m w))"
      by (simp add: bind_w_fst_snd)
    from f[of a] obtain ev' where ev': "cw_log (fst (f a (fst (m w)))) = cw_log (fst (m w)) @ ev'"
      "in_order ev'"
      "\<forall>e \<in> set ev'. k \<le> service_rank (fst e) \<and> service_rank (fst e) \<le> hi"
      unfolding ranked_def by blast
    have "in_order (ev @ ev')"
      using in_order_append[of ev ev' k] ev ev' by blast
    with ev ev' b assms(3,4) show ?thesis by (intro exI[of _ "ev @ ev'"]) fastforce
  qed
qed

lemma ranked_bind_same:
  assumes "ranked k k m" and "\<And>a. ranked k k (f a)"
  shows "ranked k k (bind_w m f)"
  using ranked_bind[OF assms] by simp















lemma log_remove [simp]: "cw_log (remove_file n w) = cw_log w"
  by (simp add: remove_file_def)

lemma unwise_member_log: "cw_log (fst (unwise_member galid fname names w)) = cw_log w"
  by (simp add: unwise_member_def Let_def split: option.splits)

lemma ranked_unwise_members: "ranked 2 2 (unwise_members galid fnames names)"
proof (induction fnames arbitrary: names)
  case Nil
  show ?case by (simp add: ranked_return)
next
  case (Cons f fs)
  show ?case
    by (simp, intro ranked_bind_same ranked_silent unwise_member_log Cons.IH)
qed






























lemma not_fetch_read [simp]: "\<not> is_fetch (s, Read n)"
  by (simp add: is_fetch_def)























end
